theory Spec2Isabelle
  imports Main
begin

section \<open>JavaScript values\<close>

text \<open>
  The program is dynamically typed: a field of a task, a property of a card and an
  argument of a method may hold any JavaScript value. Values are modelled by value:
  numbers are integers (task ids, day counts, category numbers; no NaN, no fractions),
  an array is the list of its elements, a plain object is the list of its own enumerable
  properties in enumeration order. Object identity is not part of the model; where the
  source mutates an array in place through a reference (\<open>push\<close>, \<open>splice\<close>, \<open>pop\<close> on the
  array a field holds), the model writes the changed array back into that field.
\<close>

datatype jsval =
    JUndefined
  | JNull
  | JBool bool
  | JNum int
  | JStr string
  | JArr "jsval list"
  | JObj "(string \<times> jsval) list"

datatype jstype = TUndefined | TObject | TBoolean | TNumber | TString

text \<open>\<open>typeof value\<close>; \<open>typeof null\<close> is \<open>"object"\<close>.\<close>

fun typeof :: "jsval \<Rightarrow> jstype" where
  "typeof JUndefined = TUndefined"
| "typeof JNull = TObject"
| "typeof (JBool b) = TBoolean"
| "typeof (JNum n) = TNumber"
| "typeof (JStr s) = TString"
| "typeof (JArr xs) = TObject"
| "typeof (JObj kvs) = TObject"

text \<open>The truth value an \<open>if (v)\<close> sees.\<close>

fun truthy :: "jsval \<Rightarrow> bool" where
  "truthy JUndefined = False"
| "truthy JNull = False"
| "truthy (JBool b) = b"
| "truthy (JNum n) = (n \<noteq> 0)"
| "truthy (JStr s) = (s \<noteq> [])"
| "truthy (JArr xs) = True"
| "truthy (JObj kvs) = True"

fun primitive :: "jsval \<Rightarrow> bool" where
  "primitive (JArr xs) = False"
| "primitive (JObj kvs) = False"
| "primitive v = True"

text \<open>
  \<open>a === b\<close>. Primitives are compared by value; two object values stand for two
  different references and are never identical.
\<close>

definition strict_eq :: "jsval \<Rightarrow> jsval \<Rightarrow> bool" where
  "strict_eq a b = (primitive a \<and> a = b)"

text \<open>
  Modelled from the spec: the identifiers of the fields of a task are a fixed, statically
  known enumeration (\<open>fields\<close> of \<open>Globals\<close>, which is not among the sources). Its ten
  members that the board adapter names are constructors; \<open>OtherField s\<close> stands for every
  other identifier, member or not.
\<close>

datatype fieldId =
    TRELLO_ID | GOOGLE_ID | NAME | DESCRIPTION | CATEGORIES | TAGS
  | DAYS | IS_BEGINNER | MAX_INSTANCES | LAST_MODIFIED
  | OtherField string

text \<open>
  Everything the program can throw, or a promise can be rejected with:
  \<^item> \<open>UnknownField\<close>: the \<open>Error\<close> that \<open>getField\<close> and \<open>setField\<close> throw;
  \<^item> \<open>UnsupportedType\<close>: the \<open>TypeError\<close> of \<open>valueToCustomField\<close>;
  \<^item> \<open>UnknownValueType\<close>: the \<open>TypeError\<close> of \<open>customFieldToValue\<close>;
  \<^item> \<open>RuntimeTypeError\<close>: a \<open>TypeError\<close> of the language itself (a property of
    \<open>null\<close> or \<open>undefined\<close>, a call of something that is no function, \<open>in\<close> on a primitive);
  \<^item> \<open>StatusCodeError c\<close>: a failed request whose reason has \<open>statusCode = c\<close>;
  \<^item> \<open>TransportError\<close>: a failed request whose reason has no status code.
\<close>

datatype error =
    UnknownField fieldId
  | UnsupportedType jstype
  | UnknownValueType
  | RuntimeTypeError
  | StatusCodeError int
  | TransportError

text \<open>Decimal digits of a number, for \<open>Number.prototype.toString\<close>.\<close>

definition digit :: "nat \<Rightarrow> char" where
  "digit d = ''0123456789'' ! d"

fun dec_nat :: "nat \<Rightarrow> string" where
  "dec_nat n =
     (if n < 10 then [digit n]
      else dec_nat (n div 10) @ [digit (n mod 10)])"

declare dec_nat.simps [simp del]

definition dec :: "int \<Rightarrow> string" where
  "dec i = (if i < 0 then CHR ''-'' # dec_nat (nat (- i)) else dec_nat (nat i))"

fun join_with :: "string \<Rightarrow> string list \<Rightarrow> string" where
  "join_with sep [] = []"
| "join_with sep [x] = x"
| "join_with sep (x # y # ys) = x @ sep @ join_with sep (y # ys)"

text \<open>
  \<open>String(v)\<close>: the conversion that \<open>join\<close>, \<open>String.prototype.indexOf\<close> and template
  strings apply. An array joins its elements with a comma, \<open>null\<close> and \<open>undefined\<close>
  elements giving the empty string.
\<close>

fun js_String :: "jsval \<Rightarrow> string" where
  "js_String JUndefined = ''undefined''"
| "js_String JNull = ''null''"
| "js_String (JBool b) = (if b then ''true'' else ''false'')"
| "js_String (JNum n) = dec n"
| "js_String (JStr s) = s"
| "js_String (JArr xs) =
     join_with '',''
       (map (\<lambda>x. if x = JNull \<or> x = JUndefined then [] else js_String x) xs)"
| "js_String (JObj kvs) = ''[object Object]''"

text \<open>\<open>v.toString()\<close>: a method call, so it throws on \<open>null\<close> and \<open>undefined\<close>.\<close>

definition js_toString :: "jsval \<Rightarrow> error + string" where
  "js_toString v =
     (if v = JNull \<or> v = JUndefined then Inl RuntimeTypeError else Inr (js_String v))"

text \<open>\<open>xs.join(sep)\<close> on an array.\<close>

definition js_join :: "string \<Rightarrow> jsval list \<Rightarrow> string" where
  "js_join sep xs =
     join_with sep (map (\<lambda>x. if x = JNull \<or> x = JUndefined then [] else js_String x) xs)"

fun starts_with :: "string \<Rightarrow> string \<Rightarrow> bool" where
  "starts_with [] s = True"
| "starts_with (p # ps) [] = False"
| "starts_with (p # ps) (c # cs) = (p = c \<and> starts_with ps cs)"

text \<open>\<open>s.indexOf(p) >= 0\<close> and \<open>s.includes(p)\<close> on strings: \<open>p\<close> occurs in \<open>s\<close>.\<close>

fun occurs_in :: "string \<Rightarrow> string \<Rightarrow> bool" where
  "occurs_in p [] = (p = [])"
| "occurs_in p (c # cs) = (starts_with p (c # cs) \<or> occurs_in p cs)"

text \<open>
  \<open>Object.keys(v).length\<close> for a \<open>v\<close> with \<open>typeof v === "object"\<close>: the number of
  elements of an array, the number of properties of an object, a \<open>TypeError\<close> for \<open>null\<close>.
\<close>

fun keys_length :: "jsval \<Rightarrow> error + nat" where
  "keys_length (JArr xs) = Inr (length xs)"
| "keys_length (JObj kvs) = Inr (length kvs)"
| "keys_length (JStr s) = Inr (length s)"
| "keys_length JNull = Inl RuntimeTypeError"
| "keys_length JUndefined = Inl RuntimeTypeError"
| "keys_length v = Inr 0"

section \<open>Task.js: the task record\<close>

record Task =
  taskFields :: "fieldId \<rightharpoonup> jsval"
  googleTaskMade :: bool
  trelloCardMade :: bool
  listCategoryAdded :: bool
  updatedFields :: "fieldId set"

text \<open>
  The constructor: every field of \<open>Globals.fields\<close> is \<open>null\<close>, then the entries of the
  configured \<open>defaults\<close> are written over them. Both tables are configuration the sources
  do not contain, so they are parameters.
\<close>

definition newTask :: "fieldId list \<Rightarrow> (fieldId \<times> jsval) list \<Rightarrow> Task" where
  "newTask globalFields defaults =
     \<lparr> taskFields =
         foldl (\<lambda>m (f, v). m(f \<mapsto> v))
           (foldl (\<lambda>m f. m(f \<mapsto> JNull)) Map.empty globalFields) defaults,
       googleTaskMade = False,
       trelloCardMade = False,
       listCategoryAdded = False,
       updatedFields = {} \<rparr>"

definition resetUpdatedFields :: "Task \<Rightarrow> Task" where
  "resetUpdatedFields t = t\<lparr>updatedFields := {}\<rparr>"

definition wasFieldUpdated :: "Task \<Rightarrow> fieldId \<Rightarrow> bool" where
  "wasFieldUpdated t fieldName = (fieldName \<in> updatedFields t)"

definition getField :: "Task \<Rightarrow> fieldId \<Rightarrow> error + jsval" where
  "getField t fieldName =
     (case taskFields t fieldName of
        Some v \<Rightarrow> Inr v
      | None \<Rightarrow> Inl (UnknownField fieldName))"

definition setField :: "Task \<Rightarrow> fieldId \<Rightarrow> jsval \<Rightarrow> error + Task" where
  "setField t fieldName v =
     (case taskFields t fieldName of
        Some old \<Rightarrow>
          Inr (t\<lparr>taskFields := (taskFields t)(fieldName \<mapsto> v),
                 updatedFields := insert fieldName (updatedFields t)\<rparr>)
      | None \<Rightarrow> Inl (UnknownField fieldName))"

text \<open>
  \<open>setIfData\<close>. The \<open>"object"\<close> case evaluates its three disjuncts from left to right:
  \<open>Array.isArray(value) && value.length === 0\<close>, then \<open>Object.keys(value).length === 0\<close>,
  then \<open>value == null\<close>; the second one throws when \<open>value\<close> is \<open>null\<close>.
\<close>

definition isEmptyArray :: "jsval \<Rightarrow> bool" where
  "isEmptyArray v = (case v of JArr xs \<Rightarrow> xs = [] | _ \<Rightarrow> False)"

definition setIfData :: "Task \<Rightarrow> fieldId \<Rightarrow> jsval \<Rightarrow> error + Task" where
  "setIfData t fieldName v =
     (case getField t fieldName of
        Inl e \<Rightarrow> Inl e
      | Inr cur \<Rightarrow>
          if cur \<noteq> JNull then
            (case typeof v of
               TUndefined \<Rightarrow> Inr t
             | TObject \<Rightarrow>
                 if isEmptyArray v then Inr t
                 else (case keys_length v of
                         Inl e \<Rightarrow> Inl e
                       | Inr n \<Rightarrow>
                           if n = 0 then Inr t
                           else if v = JNull \<or> v = JUndefined then Inr t
                           else setField t fieldName v)
             | TString \<Rightarrow> if v = JStr [] then Inr t else setField t fieldName v
             | TBoolean \<Rightarrow> setField t fieldName v
             | TNumber \<Rightarrow> setField t fieldName v)
          else setField t fieldName v)"

text \<open>
  \<open>addCategory\<close> and \<open>removeCategory\<close> read \<open>this.fields[fields.CATEGORIES]\<close> directly
  (no \<open>getField\<close>), call \<open>indexOf\<close> on it and change the array in place. \<open>indexOf\<close>
  exists on arrays (strict equality) and on strings (substring search); on anything else
  the call throws. \<open>console.error\<close> output is returned as a list of events.
\<close>

datatype logEvent =
    RemoveFromMissingCategory jsval jsval
  | NotInCategoryList jsval jsval
  | UpdateFailedCreating jsval
  | CannotWriteField fieldId

fun index_of :: "jsval list \<Rightarrow> jsval \<Rightarrow> nat option" where
  "index_of [] c = None"
| "index_of (x # xs) c =
     (if strict_eq x c then Some 0 else map_option Suc (index_of xs c))"

definition addCategory :: "Task \<Rightarrow> jsval \<Rightarrow> error + Task" where
  "addCategory t category =
     (case taskFields t CATEGORIES of
        Some (JArr cs) \<Rightarrow>
          (case index_of cs category of
             None \<Rightarrow> Inr (t\<lparr>taskFields := (taskFields t)(CATEGORIES \<mapsto> JArr (cs @ [category]))\<rparr>)
           | Some i \<Rightarrow> Inr t)
      | Some (JStr s) \<Rightarrow>
          if occurs_in (js_String category) s then Inr t else Inl RuntimeTypeError
      | _ \<Rightarrow> Inl RuntimeTypeError)"

definition removeCategory :: "Task \<Rightarrow> jsval \<Rightarrow> error + (Task \<times> logEvent list)" where
  "removeCategory t category =
     (let warn =
        (case getField t NAME of
           Inl e \<Rightarrow> Inl e
         | Inr n \<Rightarrow>
             (case getField t GOOGLE_ID of
                Inl e \<Rightarrow> Inl e
              | Inr g \<Rightarrow> Inr (t, [RemoveFromMissingCategory n g])))
      in case taskFields t CATEGORIES of
        Some (JArr cs) \<Rightarrow>
          (case index_of cs category of
             Some i \<Rightarrow>
               Inr (t\<lparr>taskFields := (taskFields t)(CATEGORIES \<mapsto> JArr (take i cs @ drop (Suc i) cs))\<rparr>, [])
           | None \<Rightarrow> warn)
      | Some (JStr s) \<Rightarrow>
          if occurs_in (js_String category) s then Inl RuntimeTypeError else warn
      | _ \<Rightarrow> Inl RuntimeTypeError)"

section \<open>TaskList.js: the registry\<close>







section \<open>TrelloInterface.js: the board adapter\<close>

subsection \<open>Configuration and raw data\<close>

text \<open>
  \<open>config.json\<close> and \<open>Globals\<close> are not among the sources; what the adapter reads from
  them is a parameter of every function below:
  \<^item> \<open>customFields\<close>: the board's id of each custom field;
  \<^item> \<open>categories\<close>: the number of each category;
  \<^item> \<open>categoryLists\<close>: the list of the board that belongs to a category. Its keys are category
    numbers: the adapter reads it with \<open>categoryLists["1"]\<close> and
    \<open>categoryLists[category.toString()]\<close>, and turns a key back into a category with
    \<open>parseInt\<close>. The entries are in the order of \<open>Object.keys\<close>; the property name of the
    key \<open>k\<close> is \<open>dec k\<close>.
\<close>

record customFieldIds =
  cf_isDesign :: string
  cf_isCode :: string
  cf_isDocs :: string
  cf_isOutResearch :: string
  cf_isQa :: string
  cf_tags :: string
  cf_googleId :: string
  cf_days :: string
  cf_isBeginner :: string
  cf_instances :: string

record categoryIds =
  cat_DESIGN :: int
  cat_CODING :: int
  cat_DOCS_TRAINING :: int
  cat_OUTRESEARCH :: int
  cat_QA :: int

record config =
  categoryLists :: "(int \<times> string) list"
  customFields :: customFieldIds
  categories :: categoryIds

text \<open>\<open>categoryLists[key]\<close> for a property name \<open>key\<close>; \<open>undefined\<close> when there is none.\<close>

definition categoryList :: "config \<Rightarrow> string \<Rightarrow> jsval" where
  "categoryList cfg key =
     (case map_of (map (\<lambda>(k, v). (dec k, v)) (categoryLists cfg)) key of
        Some v \<Rightarrow> JStr v
      | None \<Rightarrow> JUndefined)"

text \<open>
  A custom field in the board's form, \<open>{idCustomField, value}\<close>; the ones the adapter
  builds have no \<open>idCustomField\<close> (it reads as \<open>undefined\<close>).
\<close>

record RawCustomField =
  idCustomField :: jsval
  fvalue :: jsval

text \<open>
  A card in the board's form. A property that is absent is \<open>None\<close> and reads as
  \<open>undefined\<close>; \<open>customFieldItems\<close>, when present, is an array of custom fields.
\<close>

record RawTrello =
  r_id :: "jsval option"
  r_desc :: "jsval option"
  r_name :: "jsval option"
  r_idList :: "jsval option"
  r_dateLastActivity :: "jsval option"
  r_customFieldItems :: "RawCustomField list option"

definition readProp :: "jsval option \<Rightarrow> jsval" where
  "readProp p = (case p of Some v \<Rightarrow> v | None \<Rightarrow> JUndefined)"

text \<open>\<open>key in v\<close>, for a key that is neither an index nor built in.\<close>

fun js_in :: "string \<Rightarrow> jsval \<Rightarrow> error + bool" where
  "js_in key (JObj kvs) = Inr (map_of kvs key \<noteq> None)"
| "js_in key (JArr xs) = Inr False"
| "js_in key v = Inl RuntimeTypeError"

text \<open>\<open>v[key]\<close>, for a key that is neither an index nor built in.\<close>

fun js_prop :: "jsval \<Rightarrow> string \<Rightarrow> error + jsval" where
  "js_prop (JObj kvs) key = Inr (readProp (map_of kvs key))"
| "js_prop JNull key = Inl RuntimeTypeError"
| "js_prop JUndefined key = Inl RuntimeTypeError"
| "js_prop v key = Inr JUndefined"

text \<open>\<open>obj[key] = v\<close> on an object whose properties are kept in insertion order.\<close>

fun obj_set :: "string \<Rightarrow> 'a \<Rightarrow> (string \<times> 'a) list \<Rightarrow> (string \<times> 'a) list" where
  "obj_set key v [] = [(key, v)]"
| "obj_set key v (p # ps) = (if fst p = key then (key, v) # ps else p # obj_set key v ps)"

text \<open>\<open>Object.assign(target, source)\<close>.\<close>

definition obj_assign :: "(string \<times> 'a) list \<Rightarrow> (string \<times> 'a) list \<Rightarrow> (string \<times> 'a) list" where
  "obj_assign target source = foldl (\<lambda>acc (k, v). obj_set k v acc) target source"

subsection \<open>The value codecs\<close>

definition valueToCustomField :: "jsval \<Rightarrow> error + RawCustomField" where
  "valueToCustomField v =
     (case typeof v of
        TBoolean \<Rightarrow>
          Inr \<lparr>idCustomField = JUndefined, fvalue = JObj [(''checked'', JStr (js_String v))]\<rparr>
      | TString \<Rightarrow>
          Inr \<lparr>idCustomField = JUndefined, fvalue = JObj [(''text'', JStr (js_String v))]\<rparr>
      | TNumber \<Rightarrow>
          Inr \<lparr>idCustomField = JUndefined, fvalue = JObj [(''number'', JStr (js_String v))]\<rparr>
      | TUndefined \<Rightarrow> Inl (UnsupportedType TUndefined)
      | TObject \<Rightarrow> Inl (UnsupportedType TObject))"

text \<open>
  \<open>customFieldToValue\<close>; its argument is a custom field or \<open>undefined\<close> (\<open>None\<close>). The
  \<open>"number"\<close> branch evaluates \<open>parseInt(field.value.number)\<close> and drops the result, so
  the function ends without a \<open>return\<close> there: the value is \<open>undefined\<close>.
\<close>

definition customFieldToValue :: "RawCustomField option \<Rightarrow> error + jsval" where
  "customFieldToValue field =
     (case field of
        None \<Rightarrow> Inr JUndefined
      | Some f \<Rightarrow>
          if fvalue f = JNull then Inr (JBool False)
          else (case js_in ''checked'' (fvalue f) of
                  Inl e \<Rightarrow> Inl e
                | Inr True \<Rightarrow>
                    (case js_prop (fvalue f) ''checked'' of
                       Inl e \<Rightarrow> Inl e
                     | Inr c \<Rightarrow> Inr (JBool (strict_eq c (JStr ''true''))))
                | Inr False \<Rightarrow>
                    (case js_in ''number'' (fvalue f) of
                       Inl e \<Rightarrow> Inl e
                     | Inr True \<Rightarrow> Inr JUndefined
                     | Inr False \<Rightarrow>
                         (case js_in ''text'' (fvalue f) of
                            Inl e \<Rightarrow> Inl e
                          | Inr True \<Rightarrow> js_prop (fvalue f) ''text''
                          | Inr False \<Rightarrow> Inl UnknownValueType))))"

definition getCustomFieldFromData :: "string \<Rightarrow> RawTrello \<Rightarrow> error + jsval" where
  "getCustomFieldFromData fieldId data =
     (case r_customFieldItems data of
        Some items \<Rightarrow>
          customFieldToValue
            (find (\<lambda>checkField. strict_eq (idCustomField checkField) (JStr fieldId)) items)
      | None \<Rightarrow> Inr JUndefined)"

definition getCustomFieldFromTask :: "fieldId \<Rightarrow> Task \<Rightarrow> error + RawCustomField" where
  "getCustomFieldFromTask fieldId t =
     (case getField t fieldId of
        Inl e \<Rightarrow> Inl e
      | Inr v \<Rightarrow> valueToCustomField v)"

subsection \<open>Reading the categories of a card\<close>

text \<open>A JavaScript \<open>Set\<close> of numbers, as the list of its elements in insertion order.\<close>

definition set_add :: "int \<Rightarrow> int list \<Rightarrow> int list" where
  "set_add c cs = (if c \<in> set cs then cs else cs @ [c])"

text \<open>\<open>if (v) { taskCategories.add(c) }\<close>.\<close>

definition addIf :: "jsval \<Rightarrow> int \<Rightarrow> int list \<Rightarrow> int list" where
  "addIf v c taskCategories = (if truthy v then set_add c taskCategories else taskCategories)"

text \<open>
  The first part of \<open>parseCategories\<close>: the five checkbox fields, read in the source's
  order; a field that does not decode ends the whole method with its error.
\<close>

definition explicitCategories :: "config \<Rightarrow> RawTrello \<Rightarrow> error + int list" where
  "explicitCategories cfg rawCard =
     (case getCustomFieldFromData (cf_isDesign (customFields cfg)) rawCard of
        Inl e \<Rightarrow> Inl e
      | Inr vDesign \<Rightarrow>
     (case getCustomFieldFromData (cf_isCode (customFields cfg)) rawCard of
        Inl e \<Rightarrow> Inl e
      | Inr vCode \<Rightarrow>
     (case getCustomFieldFromData (cf_isDocs (customFields cfg)) rawCard of
        Inl e \<Rightarrow> Inl e
      | Inr vDocs \<Rightarrow>
     (case getCustomFieldFromData (cf_isOutResearch (customFields cfg)) rawCard of
        Inl e \<Rightarrow> Inl e
      | Inr vOut \<Rightarrow>
     (case getCustomFieldFromData (cf_isQa (customFields cfg)) rawCard of
        Inl e \<Rightarrow> Inl e
      | Inr vQa \<Rightarrow>
          Inr (addIf vQa (cat_QA (categories cfg))
              (addIf vOut (cat_OUTRESEARCH (categories cfg))
              (addIf vDocs (cat_DOCS_TRAINING (categories cfg))
              (addIf vCode (cat_CODING (categories cfg))
              (addIf vDesign (cat_DESIGN (categories cfg)) []))))))))))"

text \<open>
  \<open>Object.keys(categoryLists).find(key => categoryLists[key] === rawCard.idList)\<close>, followed
  by \<open>parseInt\<close>: the category of the first key whose list is the card's list.
\<close>

definition listCategory :: "config \<Rightarrow> RawTrello \<Rightarrow> int option" where
  "listCategory cfg rawCard =
     map_option fst
       (find (\<lambda>(key, l). strict_eq (JStr l) (readProp (r_idList rawCard))) (categoryLists cfg))"

text \<open>
  The second part: the set \<open>taskCategories\<close> as it is when the method reaches its last
  line, whether \<open>task.listCategoryAdded = true\<close> was executed, and what
  \<open>console.error\<close> printed.
\<close>

definition categorySet :: "config \<Rightarrow> RawTrello \<Rightarrow> error + (int list \<times> bool \<times> logEvent list)" where
  "categorySet cfg rawCard =
     (case explicitCategories cfg rawCard of
        Inl e \<Rightarrow> Inl e
      | Inr taskCategories \<Rightarrow>
          (case listCategory cfg rawCard of
             Some listId \<Rightarrow>
               if listId \<notin> set taskCategories
               then Inr (taskCategories @ [listId], True, [])
               else Inr (taskCategories, False, [])
           | None \<Rightarrow>
               Inr (taskCategories, False,
                    [NotInCategoryList (readProp (r_name rawCard)) (readProp (r_id rawCard))])))"

text \<open>
  \<open>parseCategories\<close>: the flag is only ever set, never cleared, and the set is stored
  with \<open>setIfData\<close>. The task is returned also when \<open>setIfData\<close> throws, since the flag
  has been assigned by then.
\<close>

definition parseCategories ::
  "config \<Rightarrow> Task \<Rightarrow> RawTrello \<Rightarrow> (error + unit) \<times> Task \<times> logEvent list" where
  "parseCategories cfg t rawCard =
     (case categorySet cfg rawCard of
        Inl e \<Rightarrow> (Inl e, t, [])
      | Inr (taskCategories, added, errors) \<Rightarrow>
          (let t1 = (if added then t\<lparr>listCategoryAdded := True\<rparr> else t)
           in case setIfData t1 CATEGORIES (JArr (map JNum taskCategories)) of
                Inl e \<Rightarrow> (Inl e, t1, errors)
              | Inr t2 \<Rightarrow> (Inr (), t2, errors)))"

subsection \<open>Writing a task as custom fields\<close>

text \<open>
  \<open>taskCategories.includes(category)\<close> on the value of the CATEGORIES field: membership
  in an array, a substring test on a string, a \<open>TypeError\<close> on everything else (which
  has no \<open>includes\<close>).
\<close>

definition js_includes :: "jsval \<Rightarrow> int \<Rightarrow> error + bool" where
  "js_includes v c =
     (case v of
        JArr cs \<Rightarrow> Inr (JNum c \<in> set cs)
      | JStr s \<Rightarrow> Inr (occurs_in (dec c) s)
      | _ \<Rightarrow> Inl RuntimeTypeError)"

definition checkbox :: "bool \<Rightarrow> RawCustomField" where
  "checkbox b =
     (if b then \<lparr>idCustomField = JUndefined, fvalue = JObj [(''checked'', JStr ''true'')]\<rparr>
      else \<lparr>idCustomField = JUndefined, fvalue = JStr []\<rparr>)"

definition serialiseCategories ::
  "config \<Rightarrow> Task \<Rightarrow> error + (string \<times> RawCustomField) list" where
  "serialiseCategories cfg t =
     (case getField t CATEGORIES of
        Inl e \<Rightarrow> Inl e
      | Inr taskCategories \<Rightarrow>
     (case js_includes taskCategories (cat_CODING (categories cfg)) of
        Inl e \<Rightarrow> Inl e
      | Inr code \<Rightarrow>
     (case js_includes taskCategories (cat_QA (categories cfg)) of
        Inl e \<Rightarrow> Inl e
      | Inr qa \<Rightarrow>
     (case js_includes taskCategories (cat_OUTRESEARCH (categories cfg)) of
        Inl e \<Rightarrow> Inl e
      | Inr out \<Rightarrow>
     (case js_includes taskCategories (cat_DOCS_TRAINING (categories cfg)) of
        Inl e \<Rightarrow> Inl e
      | Inr docs \<Rightarrow>
     (case js_includes taskCategories (cat_DESIGN (categories cfg)) of
        Inl e \<Rightarrow> Inl e
      | Inr design \<Rightarrow>
          Inr (obj_set (cf_isDesign (customFields cfg)) (checkbox design)
              (obj_set (cf_isDocs (customFields cfg)) (checkbox docs)
              (obj_set (cf_isOutResearch (customFields cfg)) (checkbox out)
              (obj_set (cf_isQa (customFields cfg)) (checkbox qa)
              (obj_set (cf_isCode (customFields cfg)) (checkbox code) [])))))))))))"

definition serialiseTags :: "Task \<Rightarrow> error + RawCustomField" where
  "serialiseTags t =
     (case getField t TAGS of
        Inl e \<Rightarrow> Inl e
      | Inr (JArr tags) \<Rightarrow>
          Inr \<lparr>idCustomField = JUndefined, fvalue = JObj [(''text'', JStr (js_join '', '' tags))]\<rparr>
      | Inr _ \<Rightarrow> Inl RuntimeTypeError)"

definition customToRaw :: "config \<Rightarrow> Task \<Rightarrow> error + (string \<times> RawCustomField) list" where
  "customToRaw cfg t =
     (case serialiseCategories cfg t of
        Inl e \<Rightarrow> Inl e
      | Inr rawCustom \<Rightarrow>
     (case serialiseTags t of
        Inl e \<Rightarrow> Inl e
      | Inr tags \<Rightarrow>
     (case getCustomFieldFromTask GOOGLE_ID t of
        Inl e \<Rightarrow> Inl e
      | Inr gid \<Rightarrow>
     (case getCustomFieldFromTask DAYS t of
        Inl e \<Rightarrow> Inl e
      | Inr days \<Rightarrow>
     (case getCustomFieldFromTask IS_BEGINNER t of
        Inl e \<Rightarrow> Inl e
      | Inr beginner \<Rightarrow>
     (case getCustomFieldFromTask MAX_INSTANCES t of
        Inl e \<Rightarrow> Inl e
      | Inr instances \<Rightarrow>
          Inr (obj_set (cf_instances (customFields cfg)) instances
              (obj_set (cf_isBeginner (customFields cfg)) beginner
              (obj_set (cf_days (customFields cfg)) days
              (obj_set (cf_googleId (customFields cfg)) gid
              (obj_set (cf_tags (customFields cfg)) tags rawCustom)))))))))))"

definition mainToRaw :: "Task \<Rightarrow> error + RawTrello" where
  "mainToRaw t =
     (case getField t TRELLO_ID of
        Inl e \<Rightarrow> Inl e
      | Inr i \<Rightarrow>
     (case getField t DESCRIPTION of
        Inl e \<Rightarrow> Inl e
      | Inr d \<Rightarrow>
     (case getField t NAME of
        Inl e \<Rightarrow> Inl e
      | Inr n \<Rightarrow>
          Inr \<lparr>r_id = Some i, r_desc = Some d, r_name = Some n, r_idList = None,
               r_dateLastActivity = None, r_customFieldItems = None\<rparr>)))"

subsection \<open>The board service\<close>

text \<open>
  The requester (\<open>TrelloApiRequester.js\<close>) is an external service. It is a parameter: three
  operations that answer from a state \<open>'r\<close> of the service and change it. An answer is
  the body of the response, or the reason the promise is rejected with. Every request
  that is made is recorded, in order, so that a theorem can say which requests a method
  makes.
\<close>

datatype call =
    UpdateCardMain jsval RawTrello
  | CreateCard RawTrello
  | UpdateCustomField jsval string RawCustomField

record 'r requester =
  updateCardMain :: "'r \<Rightarrow> jsval \<Rightarrow> RawTrello \<Rightarrow> (error + jsval) \<times> 'r"
  requestCreateCard :: "'r \<Rightarrow> RawTrello \<Rightarrow> (error + jsval) \<times> 'r"
  updateCustomField :: "'r \<Rightarrow> jsval \<Rightarrow> string \<Rightarrow> RawCustomField \<Rightarrow> (error + jsval) \<times> 'r"

text \<open>What a method of the adapter works on: the task it is given and the service.\<close>

record 'r world =
  theTask :: Task
  remote :: 'r
  calls :: "call list"
  printed :: "logEvent list"

text \<open>
  \<open>cardCategories.length !== 0\<close> followed by \<open>cardCategories.pop()\<close>, on the value of the
  CATEGORIES field: \<open>Inr None\<close> when the length is \<open>0\<close>, \<open>Inr (Some (c, rest))\<close> when
  \<open>pop\<close> returns \<open>c\<close> and leaves \<open>rest\<close>, a \<open>TypeError\<close> when there is no \<open>pop\<close> to call
  or no value to read \<open>length\<close> from.
\<close>

definition popCategory :: "jsval \<Rightarrow> error + (jsval \<times> jsval list) option" where
  "popCategory cardCategories =
     (case cardCategories of
        JArr cs \<Rightarrow> if cs = [] then Inr None else Inr (Some (last cs, butlast cs))
      | JStr s \<Rightarrow> if s = [] then Inr None else Inl RuntimeTypeError
      | JObj kvs \<Rightarrow>
          if strict_eq (readProp (map_of kvs ''length'')) (JNum 0) then Inr None
          else Inl RuntimeTypeError
      | _ \<Rightarrow> Inl RuntimeTypeError)"

text \<open>
  \<open>createCard\<close>. \<open>pop\<close> works on the array the field holds, so the field has lost its
  last element from then on, whatever happens next; \<open>updatedFields\<close> is not touched by it.
\<close>

definition createCard ::
  "config \<Rightarrow> 'r requester \<Rightarrow> 'r world \<Rightarrow> (error + jsval) \<times> 'r world" where
  "createCard cfg requester w =
     (case getField (theTask w) CATEGORIES of
        Inl e \<Rightarrow> (Inl e, w)
      | Inr cardCategories \<Rightarrow>
     (case popCategory cardCategories of
        Inl e \<Rightarrow> (Inl e, w)
      | Inr popped \<Rightarrow>
          (let w1 = (case popped of
                       None \<Rightarrow> w
                     | Some (c, rest) \<Rightarrow>
                         w\<lparr>theTask := (theTask w)
                             \<lparr>taskFields := (taskFields (theTask w))(CATEGORIES \<mapsto> JArr rest)\<rparr>\<rparr>);
               key = (case popped of
                        None \<Rightarrow> Inr ''1''
                      | Some (c, rest) \<Rightarrow> js_toString c)
           in case key of
                Inl e \<Rightarrow> (Inl e, w1)
              | Inr k \<Rightarrow>
           (case mainToRaw (theTask w1) of
                Inl e \<Rightarrow> (Inl e, w1)
              | Inr rawMain0 \<Rightarrow>
                  (let rawMain = rawMain0\<lparr>r_id := None, r_idList := Some (categoryList cfg k)\<rparr>;
                       (answer, r') = requestCreateCard requester (remote w1) rawMain;
                       w2 = w1\<lparr>remote := r', calls := calls w1 @ [CreateCard rawMain]\<rparr>
                   in case answer of
                        Inl reason \<Rightarrow> (Inl reason, w2)
                      | Inr response \<Rightarrow>
                          (case js_prop response ''id'' of
                             Inl e \<Rightarrow> (Inl e, w2)
                           | Inr newId \<Rightarrow>
                               (case setField (theTask w2) TRELLO_ID newId of
                                  Inl e \<Rightarrow> (Inl e, w2)
                                | Inr t' \<Rightarrow> (Inr response, w2\<lparr>theTask := t'\<rparr>))))))))"

text \<open>
  \<open>writeOrCreate\<close>. The handler given to \<open>catch\<close> returns the promise of \<open>createCard\<close>
  when the reason has \<open>statusCode === 404\<close> and returns nothing otherwise, so for every
  other reason the promise is fulfilled with \<open>undefined\<close>.
\<close>

definition writeOrCreate ::
  "config \<Rightarrow> 'r requester \<Rightarrow> 'r world \<Rightarrow> (error + jsval) \<times> 'r world" where
  "writeOrCreate cfg requester w =
     (case getField (theTask w) TRELLO_ID of
        Inl e \<Rightarrow> (Inl e, w)
      | Inr cardId \<Rightarrow>
          if truthy cardId then
            (case mainToRaw (theTask w) of
               Inl e \<Rightarrow> (Inl e, w)
             | Inr rawMain \<Rightarrow>
                 (let (answer, r') = updateCardMain requester (remote w) cardId rawMain;
                      w1 = w\<lparr>remote := r', calls := calls w @ [UpdateCardMain cardId rawMain]\<rparr>
                  in case answer of
                       Inr response \<Rightarrow> (Inr response, w1)
                     | Inl reason \<Rightarrow>
                         if reason = StatusCodeError 404 then
                           (case getField (theTask w1) NAME of
                              Inl e \<Rightarrow> (Inl e, w1)
                            | Inr n \<Rightarrow>
                                createCard cfg requester
                                  (w1\<lparr>printed := printed w1 @ [UpdateFailedCreating n]\<rparr>))
                         else (Inr JUndefined, w1)))
          else createCard cfg requester w)"

text \<open>
  \<open>_updateAllFields\<close>: one request per property of \<open>rawCustomFields\<close>, in the order of
  \<open>for ... in\<close> (insertion order: the ids of custom fields are no array indices), each
  awaited before the next; the first rejection ends the loop.
\<close>

fun updateAllFields ::
  "'r requester \<Rightarrow> jsval \<Rightarrow> (string \<times> RawCustomField) list \<Rightarrow> 'r world
     \<Rightarrow> (error + unit) \<times> 'r world" where
  "updateAllFields requester cardId [] w = (Inr (), w)"
| "updateAllFields requester cardId ((customFieldId, raw) # rest) w =
     (let (answer, r') = updateCustomField requester (remote w) cardId customFieldId raw;
          w1 = w\<lparr>remote := r', calls := calls w @ [UpdateCustomField cardId customFieldId raw]\<rparr>
      in case answer of
           Inl reason \<Rightarrow> (Inl reason, w1)
         | Inr response \<Rightarrow> updateAllFields requester cardId rest w1)"

text \<open>
  The loop of \<open>writeFields\<close> over the altered fields, with the object \<open>rawCustom\<close> that it
  fills. The cases DAYS, IS_BEGINNER and MAX_INSTANCES read \<open>fields.GOOGLE_ID\<close>, as the
  source does.
\<close>

fun stageFields ::
  "config \<Rightarrow> 'r requester \<Rightarrow> fieldId list \<Rightarrow> (string \<times> RawCustomField) list \<Rightarrow> 'r world
     \<Rightarrow> (error + (string \<times> RawCustomField) list) \<times> 'r world" where
  "stageFields cfg requester [] rawCustom w = (Inr rawCustom, w)"
| "stageFields cfg requester (alteredField # rest) rawCustom w =
     (if alteredField = NAME \<or> alteredField = DESCRIPTION then
        (case writeOrCreate cfg requester w of
           (Inl e, w1) \<Rightarrow> (Inl e, w1)
         | (Inr response, w1) \<Rightarrow> stageFields cfg requester rest rawCustom w1)
      else if alteredField = CATEGORIES then
        (case serialiseCategories cfg (theTask w) of
           Inl e \<Rightarrow> (Inl e, w)
         | Inr raw \<Rightarrow> stageFields cfg requester rest (obj_assign rawCustom raw) w)
      else if alteredField = TAGS then
        (case serialiseTags (theTask w) of
           Inl e \<Rightarrow> (Inl e, w)
         | Inr raw \<Rightarrow>
             stageFields cfg requester rest (obj_set (cf_tags (customFields cfg)) raw rawCustom) w)
      else if alteredField = GOOGLE_ID then
        (case getCustomFieldFromTask GOOGLE_ID (theTask w) of
           Inl e \<Rightarrow> (Inl e, w)
         | Inr raw \<Rightarrow>
             stageFields cfg requester rest (obj_set (cf_googleId (customFields cfg)) raw rawCustom) w)
      else if alteredField = DAYS then
        (case getCustomFieldFromTask GOOGLE_ID (theTask w) of
           Inl e \<Rightarrow> (Inl e, w)
         | Inr raw \<Rightarrow>
             stageFields cfg requester rest (obj_set (cf_days (customFields cfg)) raw rawCustom) w)
      else if alteredField = IS_BEGINNER then
        (case getCustomFieldFromTask GOOGLE_ID (theTask w) of
           Inl e \<Rightarrow> (Inl e, w)
         | Inr raw \<Rightarrow>
             stageFields cfg requester rest
               (obj_set (cf_isBeginner (customFields cfg)) raw rawCustom) w)
      else if alteredField = MAX_INSTANCES then
        (case getCustomFieldFromTask GOOGLE_ID (theTask w) of
           Inl e \<Rightarrow> (Inl e, w)
         | Inr raw \<Rightarrow>
             stageFields cfg requester rest
               (obj_set (cf_instances (customFields cfg)) raw rawCustom) w)
      else
        stageFields cfg requester rest rawCustom
          (w\<lparr>printed := printed w @ [CannotWriteField alteredField]\<rparr>))"

definition writeFields ::
  "config \<Rightarrow> 'r requester \<Rightarrow> fieldId list \<Rightarrow> 'r world \<Rightarrow> (error + unit) \<times> 'r world" where
  "writeFields cfg requester alteredFields w =
     (case stageFields cfg requester alteredFields [] w of
        (Inl e, w1) \<Rightarrow> (Inl e, w1)
      | (Inr rawCustom, w1) \<Rightarrow>
          (case getField (theTask w1) TRELLO_ID of
             Inl e \<Rightarrow> (Inl e, w1)
           | Inr cardId \<Rightarrow> updateAllFields requester cardId rawCustom w1))"

section \<open>Concrete inputs\<close>

text \<open>
  A task as the constructor makes it when \<open>Globals.fields\<close> has the ten fields of the
  adapter and the defaults give the two list fields an empty list.
\<close>

definition blankTask :: Task where
  "blankTask =
     newTask [TRELLO_ID, GOOGLE_ID, NAME, DESCRIPTION, CATEGORIES, TAGS, DAYS, IS_BEGINNER,
              MAX_INSTANCES, LAST_MODIFIED]
       [(CATEGORIES, JArr []), (TAGS, JArr [])]"

text \<open>A configuration: five categories, one list of the board for each.\<close>

definition exampleConfig :: config where
  "exampleConfig =
     \<lparr> categoryLists =
         [(1, ''list-coding''), (2, ''list-design''), (3, ''list-docs''), (4, ''list-qa''),
          (5, ''list-outreach'')],
       customFields =
         \<lparr> cf_isDesign = ''cf-design'', cf_isCode = ''cf-code'', cf_isDocs = ''cf-docs'',
           cf_isOutResearch = ''cf-outreach'', cf_isQa = ''cf-qa'', cf_tags = ''cf-tags'',
           cf_googleId = ''cf-google'', cf_days = ''cf-days'', cf_isBeginner = ''cf-beginner'',
           cf_instances = ''cf-instances'' \<rparr>,
       categories =
         \<lparr> cat_DESIGN = 2, cat_CODING = 1, cat_DOCS_TRAINING = 3, cat_OUTRESEARCH = 5,
           cat_QA = 4 \<rparr> \<rparr>"

text \<open>
  A board service that answers every update of a card's main fields with \<open>answer\<close>,
  creates cards with the id \<open>card-2\<close>, accepts every custom field, and counts the
  requests it has served.
\<close>

definition stubRequester :: "(error + jsval) \<Rightarrow> nat requester" where
  "stubRequester answer =
     \<lparr> updateCardMain = (\<lambda>r cardId rawMain. (answer, Suc r)),
       requestCreateCard = (\<lambda>r rawMain. (Inr (JObj [(''id'', JStr ''card-2'')]), Suc r)),
       updateCustomField = (\<lambda>r cardId customFieldId raw. (Inr JNull, Suc r)) \<rparr>"

text \<open>A task that is on the board as \<open>card-1\<close>, in two categories.\<close>

definition boardTask :: Task where
  "boardTask =
     blankTask\<lparr>taskFields := (taskFields blankTask)
       (TRELLO_ID \<mapsto> JStr ''card-1'', GOOGLE_ID \<mapsto> JNum 77, NAME \<mapsto> JStr ''Fix the parser'',
        DESCRIPTION \<mapsto> JStr ''See the tracker'', CATEGORIES \<mapsto> JArr [JNum 1, JNum 4],
        DAYS \<mapsto> JNum 3, IS_BEGINNER \<mapsto> JBool True, MAX_INSTANCES \<mapsto> JNum 2)\<rparr>"

definition startWorld :: "Task \<Rightarrow> nat world" where
  "startWorld t = \<lparr>theTask = t, remote = 0, calls = [], printed = []\<rparr>"

text \<open>A card with the checkbox \<open>isCode\<close> ticked, in the list of the category QA.\<close>

definition codeCardInQa :: RawTrello where
  "codeCardInQa =
     \<lparr> r_id = Some (JStr ''card-1''), r_desc = Some (JStr ''See the tracker''),
       r_name = Some (JStr ''Fix the parser''), r_idList = Some (JStr ''list-qa''),
       r_dateLastActivity = None,
       r_customFieldItems =
         Some [\<lparr>idCustomField = JStr ''cf-code'', fvalue = JObj [(''checked'', JStr ''true'')]\<rparr>] \<rparr>"

text \<open>
  A card with the checkbox \<open>isQa\<close> ticked, in the list of QA, and a card with \<open>isCode\<close>
  ticked (and \<open>isQa\<close> present but unticked, its value \<open>null\<close>) in a list of no category.
\<close>

definition qaCardInQa :: RawTrello where
  "qaCardInQa =
     codeCardInQa\<lparr>r_customFieldItems :=
       Some [\<lparr>idCustomField = JStr ''cf-qa'', fvalue = JObj [(''checked'', JStr ''true'')]\<rparr>]\<rparr>"

definition codeCardElsewhere :: RawTrello where
  "codeCardElsewhere =
     codeCardInQa\<lparr>r_idList := Some (JStr ''list-done''),
       r_customFieldItems :=
         Some [\<lparr>idCustomField = JStr ''cf-qa'', fvalue = JNull\<rparr>,
               \<lparr>idCustomField = JStr ''cf-code'', fvalue = JObj [(''checked'', JStr ''true'')]\<rparr>]\<rparr>"

section \<open>Evaluation of the number formatter\<close>

lemma dec_examples:
  "dec 1 = ''1''" "dec 2 = ''2''" "dec 3 = ''3''" "dec 4 = ''4''" "dec 5 = ''5''"
  "dec 77 = ''77''"
  by (simp_all add: dec_def dec_nat.simps digit_def)

lemma blankTask_fields:
  "taskFields blankTask =
     [TRELLO_ID \<mapsto> JNull, GOOGLE_ID \<mapsto> JNull, NAME \<mapsto> JNull, DESCRIPTION \<mapsto> JNull,
      CATEGORIES \<mapsto> JArr [], TAGS \<mapsto> JArr [], DAYS \<mapsto> JNull, IS_BEGINNER \<mapsto> JNull,
      MAX_INSTANCES \<mapsto> JNull, LAST_MODIFIED \<mapsto> JNull]"
  by (auto simp add: blankTask_def newTask_def fun_eq_iff)

lemma blankTask_clean: "updatedFields blankTask = {}"
  by (simp add: blankTask_def newTask_def)

section \<open>The task record: conditional write and dirty tracking\<close>

lemma setField_known:
  "taskFields t f = Some old \<Longrightarrow>
   setField t f v =
     Inr (t\<lparr>taskFields := (taskFields t)(f \<mapsto> v), updatedFields := insert f (updatedFields t)\<rparr>)"
  by (simp add: setField_def)

lemma setIfData_current_null:
  "taskFields t f = Some JNull \<Longrightarrow> setIfData t f v = setField t f v"
  by (simp add: setIfData_def getField_def)

lemma setIfData_skips_blank:
  assumes "taskFields t f = Some cur" "cur \<noteq> JNull"
    and "v = JUndefined \<or> v = JStr [] \<or> v = JArr [] \<or> v = JObj []"
  shows "setIfData t f v = Inr t"
  using assms by (auto simp: setIfData_def getField_def isEmptyArray_def)

lemma setIfData_writes_data:
  assumes "taskFields t f = Some cur" "cur \<noteq> JNull"
    and "v \<noteq> JUndefined" "v \<noteq> JNull" "v \<noteq> JStr []" "v \<noteq> JArr []" "v \<noteq> JObj []"
  shows "setIfData t f v = setField t f v"
  using assms
  by (cases v) (auto simp: setIfData_def getField_def isEmptyArray_def)

text \<open>
  C1. For a known field whose current value is not \<open>null\<close>, \<open>setIfData\<close> with the value
  \<open>null\<close> is meant to be a silent no-op (the last disjunct of the \<open>"object"\<close> case tests
  \<open>value == null\<close>), but \<open>Object.keys(null)\<close> is evaluated before that test and throws:
  the call ends in a \<open>TypeError\<close> instead of returning. The three lemmas above are the
  rest of the rule: a \<open>null\<close> field takes every value, a field with a value keeps it
  against \<open>undefined\<close>, \<open>""\<close>, \<open>[]\<close> and \<open>{}\<close>, and takes every other value but \<open>null\<close>.
\<close>

theorem setIfData_null_throws:
  "taskFields boardTask NAME = Some (JStr ''Fix the parser'') \<and>
   setIfData boardTask NAME JNull = Inl RuntimeTypeError"
  by (simp add: setIfData_def getField_def isEmptyArray_def boardTask_def)

text \<open>
  C8, as claimed: every one of \<open>setField\<close>, \<open>setIfData\<close>, \<open>addCategory\<close> and
  \<open>removeCategory\<close> marks a field dirty when it changes the field's value. It fails for
  \<open>addCategory\<close>: on a new task it changes CATEGORIES from \<open>[]\<close> to \<open>[4]\<close>, and the set of
  updated fields is as empty as before.
\<close>

theorem addCategory_leaves_clean:
  "addCategory blankTask (JNum 4) =
     Inr (blankTask\<lparr>taskFields := (taskFields blankTask)(CATEGORIES \<mapsto> JArr [JNum 4])\<rparr>) \<and>
   taskFields blankTask CATEGORIES = Some (JArr []) \<and>
   taskFields (blankTask\<lparr>taskFields := (taskFields blankTask)(CATEGORIES \<mapsto> JArr [JNum 4])\<rparr>)
     CATEGORIES = Some (JArr [JNum 4]) \<and>
   CATEGORIES \<notin>
     updatedFields (blankTask\<lparr>taskFields := (taskFields blankTask)(CATEGORIES \<mapsto> JArr [JNum 4])\<rparr>)"
  by (simp add: addCategory_def blankTask_fields blankTask_clean)

text \<open>
  C8, amended: the two write operations, \<open>setField\<close> (set) and \<open>setIfData\<close>
  (set-if-meaningful), mark every field dirty whose value they change.
\<close>

theorem writes_mark_dirty:
  assumes "setField t f v = Inr t' \<or> setIfData t f v = Inr t'"
    and "taskFields t' g \<noteq> taskFields t g"
  shows "g \<in> updatedFields t'"
  using assms
  by (auto simp: setField_def setIfData_def getField_def
           split: option.splits if_splits sum.splits jstype.splits)

theorem writes_mark_dirty_witness:
  "setIfData blankTask NAME (JStr ''Fix the parser'') =
     Inr (blankTask\<lparr>taskFields := (taskFields blankTask)(NAME \<mapsto> JStr ''Fix the parser''),
                    updatedFields := {NAME}\<rparr>) \<and>
   taskFields (blankTask\<lparr>taskFields := (taskFields blankTask)(NAME \<mapsto> JStr ''Fix the parser''),
                    updatedFields := {NAME}\<rparr>) NAME \<noteq> taskFields blankTask NAME \<and>
   NAME \<in> updatedFields (blankTask\<lparr>taskFields := (taskFields blankTask)(NAME \<mapsto> JStr ''Fix the parser''),
                    updatedFields := {NAME}\<rparr>)"
proof -
  let ?t' = "blankTask\<lparr>taskFields := (taskFields blankTask)(NAME \<mapsto> JStr ''Fix the parser''),
                    updatedFields := {NAME}\<rparr>"
  have run: "setIfData blankTask NAME (JStr ''Fix the parser'') = Inr ?t'"
    by (simp add: setIfData_def getField_def setField_def blankTask_fields blankTask_clean)
  have changed: "taskFields ?t' NAME \<noteq> taskFields blankTask NAME"
    by (simp add: blankTask_fields)
  from writes_mark_dirty [of blankTask NAME "JStr ''Fix the parser''" ?t' NAME] run changed
  have "NAME \<in> updatedFields ?t'" by blast
  with run changed show ?thesis by blast
qed

section \<open>The registry: one task per id\<close>





















section \<open>The value codecs\<close>

lemma boolean_round_trip:
  "valueToCustomField (JBool b) = Inr r \<Longrightarrow> customFieldToValue (Some r) = Inr (JBool b)"
  by (auto simp: valueToCustomField_def customFieldToValue_def strict_eq_def readProp_def)

lemma string_round_trip:
  "valueToCustomField (JStr s) = Inr r \<Longrightarrow> customFieldToValue (Some r) = Inr (JStr s)"
  by (auto simp: valueToCustomField_def customFieldToValue_def strict_eq_def readProp_def)

lemma number_decodes_to_undefined:
  "valueToCustomField (JNum n) = Inr r \<Longrightarrow> customFieldToValue (Some r) = Inr JUndefined"
  by (auto simp: valueToCustomField_def customFieldToValue_def strict_eq_def readProp_def)

lemma null_value_is_unchecked:
  "fvalue f = JNull \<Longrightarrow> customFieldToValue (Some f) = Inr (JBool False)"
  by (simp add: customFieldToValue_def)

lemma other_types_unsupported:
  "typeof v \<noteq> TBoolean \<Longrightarrow> typeof v \<noteq> TString \<Longrightarrow> typeof v \<noteq> TNumber \<Longrightarrow>
   valueToCustomField v = Inl (UnsupportedType (typeof v))"
  by (cases v) (auto simp: valueToCustomField_def)

text \<open>
  C6. The number \<open>5\<close> is encoded as \<open>{value: {number: "5"}}\<close>, and decoding that gives
  \<open>undefined\<close>, not \<open>5\<close>: the \<open>"number"\<close> branch of \<open>customFieldToValue\<close> computes
  \<open>parseInt(field.value.number)\<close> without returning it. The lemmas above are the rest of
  the claim: booleans and strings come back, a \<open>null\<close> value decodes to \<open>false\<close>, and
  every other type of value is refused by \<open>valueToCustomField\<close>.
\<close>

theorem number_round_trip_lost:
  "valueToCustomField (JNum 5) =
     Inr \<lparr>idCustomField = JUndefined, fvalue = JObj [(''number'', JStr ''5'')]\<rparr> \<and>
   customFieldToValue
     (Some \<lparr>idCustomField = JUndefined, fvalue = JObj [(''number'', JStr ''5'')]\<rparr>)
     = Inr JUndefined"
  by (simp add: valueToCustomField_def customFieldToValue_def dec_examples)

section \<open>Reading the categories of a card\<close>

lemma set_addIf: "set (addIf v c xs) = set xs \<union> {x. x = c \<and> truthy v}"
  by (auto simp: addIf_def set_add_def)

lemma distinct_addIf: "distinct xs \<Longrightarrow> distinct (addIf v c xs)"
  by (auto simp: addIf_def set_add_def)

lemma explicitCategories_set:
  assumes "getCustomFieldFromData (cf_isDesign (customFields cfg)) rawCard = Inr vDesign"
    and "getCustomFieldFromData (cf_isCode (customFields cfg)) rawCard = Inr vCode"
    and "getCustomFieldFromData (cf_isDocs (customFields cfg)) rawCard = Inr vDocs"
    and "getCustomFieldFromData (cf_isOutResearch (customFields cfg)) rawCard = Inr vOut"
    and "getCustomFieldFromData (cf_isQa (customFields cfg)) rawCard = Inr vQa"
  shows "\<exists>xs. explicitCategories cfg rawCard = Inr xs \<and> distinct xs \<and>
     set xs = {c. (c = cat_DESIGN (categories cfg) \<and> truthy vDesign) \<or>
                  (c = cat_CODING (categories cfg) \<and> truthy vCode) \<or>
                  (c = cat_DOCS_TRAINING (categories cfg) \<and> truthy vDocs) \<or>
                  (c = cat_OUTRESEARCH (categories cfg) \<and> truthy vOut) \<or>
                  (c = cat_QA (categories cfg) \<and> truthy vQa)}"
proof -
  let ?xs = "addIf vQa (cat_QA (categories cfg))
              (addIf vOut (cat_OUTRESEARCH (categories cfg))
              (addIf vDocs (cat_DOCS_TRAINING (categories cfg))
              (addIf vCode (cat_CODING (categories cfg))
              (addIf vDesign (cat_DESIGN (categories cfg)) []))))"
  have run: "explicitCategories cfg rawCard = Inr ?xs"
    by (simp add: explicitCategories_def assms)
  have dist: "distinct ?xs"
    by (intro distinct_addIf) simp
  have elems: "set ?xs = {c. (c = cat_DESIGN (categories cfg) \<and> truthy vDesign) \<or>
                  (c = cat_CODING (categories cfg) \<and> truthy vCode) \<or>
                  (c = cat_DOCS_TRAINING (categories cfg) \<and> truthy vDocs) \<or>
                  (c = cat_OUTRESEARCH (categories cfg) \<and> truthy vOut) \<or>
                  (c = cat_QA (categories cfg) \<and> truthy vQa)}"
    by (auto simp: set_addIf)
  from run dist elems show ?thesis by blast
qed

lemma find_None_all: "find p xs = None \<longleftrightarrow> (\<forall>x\<in>set xs. \<not> p x)"
  by (induction xs) auto

lemma find_Some_mem: "find p xs = Some x \<Longrightarrow> x \<in> set xs \<and> p x"
  by (induction xs) (auto split: if_splits)

lemma listCategory_None:
  "listCategory cfg rawCard = None \<longleftrightarrow>
     (\<forall>(c, l)\<in>set (categoryLists cfg). JStr l \<noteq> readProp (r_idList rawCard))"
  by (auto simp: listCategory_def find_None_all strict_eq_def)

lemma listCategory_Some:
  "listCategory cfg rawCard = Some c \<Longrightarrow>
     \<exists>l. (c, l) \<in> set (categoryLists cfg) \<and> JStr l = readProp (r_idList rawCard)"
  by (auto simp: listCategory_def strict_eq_def dest!: find_Some_mem)

lemma setIfData_keeps_flag:
  "setIfData t1 f v = Inr t2 \<Longrightarrow> listCategoryAdded t2 = listCategoryAdded t1"
  by (auto simp: setIfData_def setField_def getField_def
           split: sum.splits option.splits if_splits jstype.splits)

text \<open>
  C2. For a card whose five category checkboxes decode (to \<open>vDesign\<close>, ..., \<open>vQa\<close>),
  \<open>parseCategories\<close> reaches its last line with a set \<open>taskCategories\<close> that holds
  \<^item> each category whose checkbox decoded to a value that counts as true (a ticked
    checkbox decodes to \<open>true\<close>), and
  \<^item> the category of the card's list, when the list belongs to one;
  no element twice. It assigned \<open>listCategoryAdded = true\<close> exactly when the list's
  category was not among the ticked ones (\<open>added\<close>), so the flag afterwards is the flag
  before or \<open>added\<close>. When no category has the card's list, the set is the ticked
  categories, the flag is as before, and the error was printed; otherwise nothing is
  printed. The list's category is a key of \<open>categoryLists\<close> whose list is the card's
  \<open>idList\<close>, and there is none exactly when no entry has that list.
\<close>

theorem parseCategories_category_set:
  assumes "getCustomFieldFromData (cf_isDesign (customFields cfg)) rawCard = Inr vDesign"
    and "getCustomFieldFromData (cf_isCode (customFields cfg)) rawCard = Inr vCode"
    and "getCustomFieldFromData (cf_isDocs (customFields cfg)) rawCard = Inr vDocs"
    and "getCustomFieldFromData (cf_isOutResearch (customFields cfg)) rawCard = Inr vOut"
    and "getCustomFieldFromData (cf_isQa (customFields cfg)) rawCard = Inr vQa"
  shows "\<exists>taskCategories added.
     categorySet cfg rawCard =
       Inr (taskCategories, added,
            if listCategory cfg rawCard = None
            then [NotInCategoryList (readProp (r_name rawCard)) (readProp (r_id rawCard))]
            else []) \<and>
     distinct taskCategories \<and>
     set taskCategories =
       {c. (c = cat_DESIGN (categories cfg) \<and> truthy vDesign) \<or>
           (c = cat_CODING (categories cfg) \<and> truthy vCode) \<or>
           (c = cat_DOCS_TRAINING (categories cfg) \<and> truthy vDocs) \<or>
           (c = cat_OUTRESEARCH (categories cfg) \<and> truthy vOut) \<or>
           (c = cat_QA (categories cfg) \<and> truthy vQa)}
       \<union> (case listCategory cfg rawCard of Some c \<Rightarrow> {c} | None \<Rightarrow> {}) \<and>
     added =
       (\<exists>c. listCategory cfg rawCard = Some c \<and>
            \<not> ((c = cat_DESIGN (categories cfg) \<and> truthy vDesign) \<or>
               (c = cat_CODING (categories cfg) \<and> truthy vCode) \<or>
               (c = cat_DOCS_TRAINING (categories cfg) \<and> truthy vDocs) \<or>
               (c = cat_OUTRESEARCH (categories cfg) \<and> truthy vOut) \<or>
               (c = cat_QA (categories cfg) \<and> truthy vQa))) \<and>
     listCategoryAdded (fst (snd (parseCategories cfg t rawCard))) = (listCategoryAdded t \<or> added) \<and>
     snd (snd (parseCategories cfg t rawCard)) =
       (if listCategory cfg rawCard = None
        then [NotInCategoryList (readProp (r_name rawCard)) (readProp (r_id rawCard))]
        else []) \<and>
     (listCategory cfg rawCard = None \<longleftrightarrow>
        (\<forall>(c, l)\<in>set (categoryLists cfg). JStr l \<noteq> readProp (r_idList rawCard))) \<and>
     (\<forall>c. listCategory cfg rawCard = Some c \<longrightarrow>
        (\<exists>l. (c, l) \<in> set (categoryLists cfg) \<and> JStr l = readProp (r_idList rawCard)))"
proof -
  let ?lc = "listCategory cfg rawCard"
  let ?out = "if ?lc = None
        then [NotInCategoryList (readProp (r_name rawCard)) (readProp (r_id rawCard))]
        else []"
  obtain xs where run: "explicitCategories cfg rawCard = Inr xs" and dist: "distinct xs"
    and elems: "set xs = {c. (c = cat_DESIGN (categories cfg) \<and> truthy vDesign) \<or>
           (c = cat_CODING (categories cfg) \<and> truthy vCode) \<or>
           (c = cat_DOCS_TRAINING (categories cfg) \<and> truthy vDocs) \<or>
           (c = cat_OUTRESEARCH (categories cfg) \<and> truthy vOut) \<or>
           (c = cat_QA (categories cfg) \<and> truthy vQa)}"
    using explicitCategories_set [OF assms] by blast
  let ?tc = "case ?lc of Some c \<Rightarrow> if c \<notin> set xs then xs @ [c] else xs | None \<Rightarrow> xs"
  let ?added = "case ?lc of Some c \<Rightarrow> c \<notin> set xs | None \<Rightarrow> False"
  have cs: "categorySet cfg rawCard = Inr (?tc, ?added, ?out)"
    by (simp add: categorySet_def run split: option.splits)
  have d: "distinct ?tc"
    using dist by (simp split: option.splits)
  have "set ?tc = set xs \<union> (case ?lc of Some c \<Rightarrow> {c} | None \<Rightarrow> {})"
    by (auto split: option.splits)
  then have s: "set ?tc =
       {c. (c = cat_DESIGN (categories cfg) \<and> truthy vDesign) \<or>
           (c = cat_CODING (categories cfg) \<and> truthy vCode) \<or>
           (c = cat_DOCS_TRAINING (categories cfg) \<and> truthy vDocs) \<or>
           (c = cat_OUTRESEARCH (categories cfg) \<and> truthy vOut) \<or>
           (c = cat_QA (categories cfg) \<and> truthy vQa)}
       \<union> (case ?lc of Some c \<Rightarrow> {c} | None \<Rightarrow> {})"
    by (simp only: elems)
  have "?added = (\<exists>c. ?lc = Some c \<and> c \<notin> set xs)"
    by (simp split: option.splits)
  then have a: "?added =
       (\<exists>c. ?lc = Some c \<and>
            \<not> ((c = cat_DESIGN (categories cfg) \<and> truthy vDesign) \<or>
               (c = cat_CODING (categories cfg) \<and> truthy vCode) \<or>
               (c = cat_DOCS_TRAINING (categories cfg) \<and> truthy vDocs) \<or>
               (c = cat_OUTRESEARCH (categories cfg) \<and> truthy vOut) \<or>
               (c = cat_QA (categories cfg) \<and> truthy vQa)))"
    by (simp only: elems mem_Collect_eq)
  have pc: "parseCategories cfg t rawCard =
      (case setIfData (if ?added then t\<lparr>listCategoryAdded := True\<rparr> else t) CATEGORIES
              (JArr (map JNum ?tc)) of
         Inl e \<Rightarrow> (Inl e, if ?added then t\<lparr>listCategoryAdded := True\<rparr> else t, ?out)
       | Inr t2 \<Rightarrow> (Inr (), t2, ?out))"
    by (simp only: parseCategories_def cs sum.case prod.case Let_def)
  have fl: "listCategoryAdded (fst (snd (parseCategories cfg t rawCard)))
      = (listCategoryAdded t \<or> ?added)"
  proof (cases "setIfData (if ?added then t\<lparr>listCategoryAdded := True\<rparr> else t) CATEGORIES
              (JArr (map JNum ?tc))")
    case (Inl e)
    then show ?thesis by (simp add: pc)
  next
    case (Inr t2)
    from setIfData_keeps_flag [OF Inr] show ?thesis by (simp add: pc Inr)
  qed
  have pr: "snd (snd (parseCategories cfg t rawCard)) = ?out"
    by (simp add: pc split: sum.splits)
  have none: "?lc = None \<longleftrightarrow>
        (\<forall>(c, l)\<in>set (categoryLists cfg). JStr l \<noteq> readProp (r_idList rawCard))"
    by (rule listCategory_None)
  have some: "\<forall>c. ?lc = Some c \<longrightarrow>
        (\<exists>l. (c, l) \<in> set (categoryLists cfg) \<and> JStr l = readProp (r_idList rawCard))"
    using listCategory_Some by blast
  from cs d s a fl pr none some show ?thesis
    by (intro exI [of _ ?tc] exI [of _ ?added] conjI)
qed

lemma codeCardInQa_fields:
  "getCustomFieldFromData (cf_isDesign (customFields exampleConfig)) codeCardInQa = Inr JUndefined"
  "getCustomFieldFromData (cf_isCode (customFields exampleConfig)) codeCardInQa = Inr (JBool True)"
  "getCustomFieldFromData (cf_isDocs (customFields exampleConfig)) codeCardInQa = Inr JUndefined"
  "getCustomFieldFromData (cf_isOutResearch (customFields exampleConfig)) codeCardInQa = Inr JUndefined"
  "getCustomFieldFromData (cf_isQa (customFields exampleConfig)) codeCardInQa = Inr JUndefined"
  by (simp_all add: getCustomFieldFromData_def customFieldToValue_def codeCardInQa_def
        exampleConfig_def strict_eq_def readProp_def)

lemma codeCardInQa_set:
  "categorySet exampleConfig codeCardInQa = Inr ([1, 4], True, [])"
  by (simp add: categorySet_def explicitCategories_def codeCardInQa_fields addIf_def set_add_def
        listCategory_def)
     (simp add: exampleConfig_def codeCardInQa_def strict_eq_def readProp_def)

lemma qaCardInQa_set:
  "categorySet exampleConfig qaCardInQa = Inr ([4], False, [])"
  by (simp add: categorySet_def explicitCategories_def getCustomFieldFromData_def
        customFieldToValue_def qaCardInQa_def codeCardInQa_def exampleConfig_def strict_eq_def
        readProp_def addIf_def set_add_def listCategory_def)

lemma codeCardElsewhere_set:
  "categorySet exampleConfig codeCardElsewhere =
     Inr ([1], False, [NotInCategoryList (JStr ''Fix the parser'') (JStr ''card-1'')])"
  by (simp add: categorySet_def explicitCategories_def getCustomFieldFromData_def
        customFieldToValue_def codeCardElsewhere_def codeCardInQa_def exampleConfig_def
        strict_eq_def readProp_def addIf_def set_add_def listCategory_def)

text \<open>The card of the example: \<open>isCode\<close> ticked, in the list of QA; the result is the set of CODING and QA, with the flag set.\<close>

theorem parseCategories_category_set_witness:
  "getCustomFieldFromData (cf_isDesign (customFields exampleConfig)) codeCardInQa = Inr JUndefined \<and>
   getCustomFieldFromData (cf_isCode (customFields exampleConfig)) codeCardInQa = Inr (JBool True) \<and>
   getCustomFieldFromData (cf_isDocs (customFields exampleConfig)) codeCardInQa = Inr JUndefined \<and>
   getCustomFieldFromData (cf_isOutResearch (customFields exampleConfig)) codeCardInQa = Inr JUndefined \<and>
   getCustomFieldFromData (cf_isQa (customFields exampleConfig)) codeCardInQa = Inr JUndefined \<and>
   categorySet exampleConfig codeCardInQa = Inr ([1, 4], True, []) \<and>
   listCategoryAdded (fst (snd (parseCategories exampleConfig blankTask codeCardInQa)))"
proof -
  from parseCategories_category_set [OF codeCardInQa_fields, of blankTask]
  obtain taskCategories added out where
    cs: "categorySet exampleConfig codeCardInQa = Inr (taskCategories, added, out)"
    and flag: "listCategoryAdded (fst (snd (parseCategories exampleConfig blankTask codeCardInQa)))
        = (listCategoryAdded blankTask \<or> added)"
    by (elim exE conjE) (rule that, assumption+)
  from cs have "added" by (simp add: codeCardInQa_set)
  with flag have "listCategoryAdded (fst (snd (parseCategories exampleConfig blankTask codeCardInQa)))"
    by simp
  with codeCardInQa_fields codeCardInQa_set show ?thesis by (intro conjI)
qed

section \<open>Creating a card\<close>

lemma startWorld_simps:
  "theTask (startWorld t) = t" "remote (startWorld t) = 0" "calls (startWorld t) = []"
  "printed (startWorld t) = []"
  by (simp_all add: startWorld_def)

lemma boardTask_fields:
  "taskFields boardTask TRELLO_ID = Some (JStr ''card-1'')"
  "taskFields boardTask GOOGLE_ID = Some (JNum 77)"
  "taskFields boardTask NAME = Some (JStr ''Fix the parser'')"
  "taskFields boardTask DESCRIPTION = Some (JStr ''See the tracker'')"
  "taskFields boardTask CATEGORIES = Some (JArr [JNum 1, JNum 4])"
  "taskFields boardTask DAYS = Some (JNum 3)"
  "updatedFields boardTask = {}"
  by (simp_all add: boardTask_def blankTask_clean)

lemma boardTask_main:
  "mainToRaw boardTask =
     Inr \<lparr>r_id = Some (JStr ''card-1''), r_desc = Some (JStr ''See the tracker''),
          r_name = Some (JStr ''Fix the parser''), r_idList = None,
          r_dateLastActivity = None, r_customFieldItems = None\<rparr>"
  by (simp add: mainToRaw_def getField_def boardTask_fields)

lemma exampleConfig_lists:
  "categoryList exampleConfig ''1'' = JStr ''list-coding''"
  "categoryList exampleConfig ''4'' = JStr ''list-qa''"
  by (simp_all add: categoryList_def exampleConfig_def dec_examples)

lemma getField_ignores_categories:
  "f \<noteq> CATEGORIES \<Longrightarrow>
   getField (t\<lparr>taskFields := (taskFields t)(CATEGORIES \<mapsto> x)\<rparr>) f = getField t f"
  by (simp add: getField_def)

lemma mainToRaw_ignores_categories:
  "mainToRaw (t\<lparr>taskFields := (taskFields t)(CATEGORIES \<mapsto> x)\<rparr>) = mainToRaw t"
  by (simp add: mainToRaw_def getField_ignores_categories cong: sum.case_cong)

lemma mainToRaw_known:
  "mainToRaw t = Inr m \<longleftrightarrow>
     (\<exists>i d n. taskFields t TRELLO_ID = Some i \<and> taskFields t DESCRIPTION = Some d \<and>
        taskFields t NAME = Some n \<and>
        m = \<lparr>r_id = Some i, r_desc = Some d, r_name = Some n, r_idList = None,
             r_dateLastActivity = None, r_customFieldItems = None\<rparr>)"
  by (auto simp: mainToRaw_def getField_def split: option.splits)

lemma createCard_calls:
  "\<exists>extra. calls (snd (createCard cfg requester w)) = calls w @ extra \<and>
     (extra = [] \<or> (\<exists>raw. extra = [CreateCard raw]))"
  by (auto simp: createCard_def Let_def split: sum.splits option.splits prod.splits)

lemma createCard_success:
  assumes "createCard cfg requester w = (Inr response, w')"
  shows "\<exists>rawMain newId. calls w' = calls w @ [CreateCard rawMain] \<and>
           r_id rawMain = None \<and>
           requestCreateCard requester (remote w) rawMain = (Inr response, remote w') \<and>
           js_prop response ''id'' = Inr newId \<and>
           taskFields (theTask w') TRELLO_ID = Some newId \<and>
           TRELLO_ID \<in> updatedFields (theTask w')"
  using assms
  by (auto simp: createCard_def Let_def setField_def split: sum.splits option.splits prod.splits)

text \<open>
  C10. When the CATEGORIES field holds a non-empty array, after \<open>createCard\<close> (however it
  ends) the field holds the array without its last element, one element shorter;
  CATEGORIES is among the updated fields exactly if it was before; the method makes no
  request or one, a creation whose \<open>idList\<close> is the list of the removed category; and it
  makes that request whenever the removed category has a \<open>toString\<close> and the three main
  fields exist.
\<close>

theorem createCard_pops_category:
  assumes "taskFields (theTask w) CATEGORIES = Some (JArr cs)" and "cs \<noteq> []"
  shows "taskFields (theTask (snd (createCard cfg requester w))) CATEGORIES = Some (JArr (butlast cs)) \<and>
         length (butlast cs) + 1 = length cs \<and>
         (CATEGORIES \<in> updatedFields (theTask (snd (createCard cfg requester w)))
            \<longleftrightarrow> CATEGORIES \<in> updatedFields (theTask w)) \<and>
         (\<exists>extra. calls (snd (createCard cfg requester w)) = calls w @ extra \<and>
            (extra = [] \<or>
             (\<exists>raw. extra = [CreateCard raw] \<and>
                r_idList raw = Some (categoryList cfg (js_String (last cs)))))) \<and>
         (\<forall>key m. js_toString (last cs) = Inr key \<and> mainToRaw (theTask w) = Inr m \<longrightarrow>
            calls (snd (createCard cfg requester w)) =
              calls w @ [CreateCard (m\<lparr>r_id := None, r_idList := Some (categoryList cfg key)\<rparr>)])"
  using assms
  by (auto simp: createCard_def Let_def setField_def getField_def popCategory_def
        mainToRaw_ignores_categories js_toString_def
      split: sum.splits option.splits prod.splits if_splits)

theorem createCard_pops_category_witness:
  "taskFields (theTask (startWorld boardTask)) CATEGORIES = Some (JArr [JNum 1, JNum 4]) \<and>
   [JNum 1, JNum 4] \<noteq> [] \<and>
   taskFields (theTask (snd (createCard exampleConfig (stubRequester (Inr JNull))
       (startWorld boardTask)))) CATEGORIES = Some (JArr [JNum 1]) \<and>
   CATEGORIES \<notin> updatedFields (theTask (snd (createCard exampleConfig (stubRequester (Inr JNull))
       (startWorld boardTask)))) \<and>
   calls (snd (createCard exampleConfig (stubRequester (Inr JNull)) (startWorld boardTask))) =
     [CreateCard \<lparr>r_id = None, r_desc = Some (JStr ''See the tracker''),
        r_name = Some (JStr ''Fix the parser''), r_idList = Some (JStr ''list-qa''),
        r_dateLastActivity = None, r_customFieldItems = None\<rparr>]"
proof -
  have cats: "taskFields (theTask (startWorld boardTask)) CATEGORIES = Some (JArr [JNum 1, JNum 4])"
    by (simp add: startWorld_simps boardTask_fields)
  have nonempty: "[JNum 1, JNum 4] \<noteq> []" by simp
  note facts = createCard_pops_category [OF cats nonempty, of exampleConfig "stubRequester (Inr JNull)"]
  have popped: "taskFields (theTask (snd (createCard exampleConfig (stubRequester (Inr JNull))
       (startWorld boardTask)))) CATEGORIES = Some (JArr [JNum 1])"
    using facts by simp
  have clean: "CATEGORIES \<notin> updatedFields (theTask (snd (createCard exampleConfig
       (stubRequester (Inr JNull)) (startWorld boardTask))))"
    using facts by (simp add: startWorld_simps boardTask_fields)
  have key: "js_toString (last [JNum 1, JNum 4]) = Inr ''4''"
    by (simp add: js_toString_def dec_examples)
  have main: "mainToRaw (theTask (startWorld boardTask)) =
     Inr \<lparr>r_id = Some (JStr ''card-1''), r_desc = Some (JStr ''See the tracker''),
          r_name = Some (JStr ''Fix the parser''), r_idList = None,
          r_dateLastActivity = None, r_customFieldItems = None\<rparr>"
    by (simp add: startWorld_simps boardTask_main)
  from facts key main
  have "calls (snd (createCard exampleConfig (stubRequester (Inr JNull)) (startWorld boardTask))) =
     calls (startWorld boardTask) @
     [CreateCard (\<lparr>r_id = Some (JStr ''card-1''), r_desc = Some (JStr ''See the tracker''),
          r_name = Some (JStr ''Fix the parser''), r_idList = None,
          r_dateLastActivity = None, r_customFieldItems = None\<rparr>
          \<lparr>r_id := None, r_idList := Some (categoryList exampleConfig ''4'')\<rparr>)]"
    by blast
  then have sent: "calls (snd (createCard exampleConfig (stubRequester (Inr JNull)) (startWorld boardTask))) =
     [CreateCard \<lparr>r_id = None, r_desc = Some (JStr ''See the tracker''),
        r_name = Some (JStr ''Fix the parser''), r_idList = Some (JStr ''list-qa''),
        r_dateLastActivity = None, r_customFieldItems = None\<rparr>]"
    by (simp add: startWorld_simps exampleConfig_lists)
  from cats nonempty popped clean sent show ?thesis by (intro conjI)
qed

text \<open>
  C7, as claimed: the destination is the list of the first category. The task is in the
  categories \<open>1\<close> and \<open>4\<close>, in this order; the list of category \<open>1\<close> is \<open>list-coding\<close>,
  and the card is created in \<open>list-qa\<close>, the list of the last category.
\<close>

theorem createCard_uses_last_category:
  "taskFields boardTask CATEGORIES = Some (JArr [JNum 1, JNum 4]) \<and>
   categoryList exampleConfig (js_String (JNum 1)) = JStr ''list-coding'' \<and>
   calls (snd (createCard exampleConfig (stubRequester (Inr JNull)) (startWorld boardTask))) =
     [CreateCard \<lparr>r_id = None, r_desc = Some (JStr ''See the tracker''),
        r_name = Some (JStr ''Fix the parser''), r_idList = Some (JStr ''list-qa''),
        r_dateLastActivity = None, r_customFieldItems = None\<rparr>]"
  by (simp add: createCard_def getField_def boardTask_fields boardTask_main startWorld_def
        stubRequester_def popCategory_def js_toString_def exampleConfig_lists dec_examples
        setField_def readProp_def mainToRaw_ignores_categories)

text \<open>
  C7, amended: the destination is the list mapped from the last category of the task's
  category list (\<open>categoryLists[c.toString()]\<close> for the popped \<open>c\<close>), or
  \<open>categoryLists["1"]\<close> when the list is empty. The request carries the description and
  the name, no id, and that list; when it succeeds, its result is the result of
  \<open>createCard\<close>, and the id of the response is written to TRELLO_ID, which is marked
  updated.
\<close>

theorem createCard_destination:
  assumes cats: "taskFields (theTask w) CATEGORIES = Some (JArr cs)"
    and key: "(if cs = [] then Inr ''1'' else js_toString (last cs)) = Inr key"
    and flds: "taskFields (theTask w) TRELLO_ID = Some i"
      "taskFields (theTask w) DESCRIPTION = Some d" "taskFields (theTask w) NAME = Some n"
    and answer: "requestCreateCard requester (remote w)
        \<lparr>r_id = None, r_desc = Some d, r_name = Some n, r_idList = Some (categoryList cfg key),
         r_dateLastActivity = None, r_customFieldItems = None\<rparr> = (Inr response, r')"
    and newId: "js_prop response ''id'' = Inr newId"
  shows "fst (createCard cfg requester w) = Inr response \<and>
         calls (snd (createCard cfg requester w)) =
           calls w @ [CreateCard \<lparr>r_id = None, r_desc = Some d, r_name = Some n,
                        r_idList = Some (categoryList cfg key),
                        r_dateLastActivity = None, r_customFieldItems = None\<rparr>] \<and>
         remote (snd (createCard cfg requester w)) = r' \<and>
         taskFields (theTask (snd (createCard cfg requester w))) TRELLO_ID = Some newId \<and>
         TRELLO_ID \<in> updatedFields (theTask (snd (createCard cfg requester w)))"
  using assms
  by (auto simp: createCard_def Let_def setField_def getField_def popCategory_def
        mainToRaw_def
      split: if_splits)

theorem createCard_destination_witness:
  "taskFields (theTask (startWorld boardTask)) CATEGORIES = Some (JArr [JNum 1, JNum 4]) \<and>
   fst (createCard exampleConfig (stubRequester (Inr JNull)) (startWorld boardTask))
     = Inr (JObj [(''id'', JStr ''card-2'')]) \<and>
   calls (snd (createCard exampleConfig (stubRequester (Inr JNull)) (startWorld boardTask))) =
     [CreateCard \<lparr>r_id = None, r_desc = Some (JStr ''See the tracker''),
        r_name = Some (JStr ''Fix the parser''), r_idList = Some (JStr ''list-qa''),
        r_dateLastActivity = None, r_customFieldItems = None\<rparr>] \<and>
   taskFields (theTask (snd (createCard exampleConfig (stubRequester (Inr JNull))
       (startWorld boardTask)))) TRELLO_ID = Some (JStr ''card-2'') \<and>
   TRELLO_ID \<in> updatedFields (theTask (snd (createCard exampleConfig (stubRequester (Inr JNull))
       (startWorld boardTask))))"
proof -
  have cats: "taskFields (theTask (startWorld boardTask)) CATEGORIES = Some (JArr [JNum 1, JNum 4])"
    by (simp add: startWorld_simps boardTask_fields)
  have key: "(if [JNum 1, JNum 4] = [] then Inr ''1'' else js_toString (last [JNum 1, JNum 4]))
      = Inr ''4''"
    by (simp add: js_toString_def dec_examples)
  have flds: "taskFields (theTask (startWorld boardTask)) TRELLO_ID = Some (JStr ''card-1'')"
    "taskFields (theTask (startWorld boardTask)) DESCRIPTION = Some (JStr ''See the tracker'')"
    "taskFields (theTask (startWorld boardTask)) NAME = Some (JStr ''Fix the parser'')"
    by (simp_all add: startWorld_simps boardTask_fields)
  have answer: "requestCreateCard (stubRequester (Inr JNull)) (remote (startWorld boardTask))
        \<lparr>r_id = None, r_desc = Some (JStr ''See the tracker''),
         r_name = Some (JStr ''Fix the parser''),
         r_idList = Some (categoryList exampleConfig ''4''),
         r_dateLastActivity = None, r_customFieldItems = None\<rparr>
        = (Inr (JObj [(''id'', JStr ''card-2'')]), 1)"
    by (simp add: stubRequester_def startWorld_simps)
  have newId: "js_prop (JObj [(''id'', JStr ''card-2'')]) ''id'' = Inr (JStr ''card-2'')"
    by (simp add: readProp_def)
  from createCard_destination [OF cats key flds answer newId] cats
  show ?thesis by (simp add: startWorld_simps exampleConfig_lists)
qed

section \<open>Update, else create\<close>

text \<open>
  What \<open>writeOrCreate\<close> does when the update is rejected for a reason other than a
  status code 404: the handler returns nothing, no card is created, and the promise is
  fulfilled with \<open>undefined\<close>.
\<close>

lemma writeOrCreate_other_failure:
  assumes "getField (theTask w) TRELLO_ID = Inr cardId" and "truthy cardId"
    and "mainToRaw (theTask w) = Inr rawMain"
    and "updateCardMain requester (remote w) cardId rawMain = (Inl reason, r')"
    and "reason \<noteq> StatusCodeError 404"
  shows "writeOrCreate cfg requester w =
           (Inr JUndefined, w\<lparr>remote := r', calls := calls w @ [UpdateCardMain cardId rawMain]\<rparr>)"
  using assms by (simp add: writeOrCreate_def)

text \<open>
  C3. A task that is on the board as \<open>card-1\<close>; the board answers the update of the
  main fields with status 500. \<open>writeOrCreate\<close> does not pass the failure on: its result
  is the value \<open>undefined\<close> (a fulfilled promise), after the one request; no card is
  created, as the claim says.
\<close>

theorem writeOrCreate_swallows_failure:
  "writeOrCreate exampleConfig (stubRequester (Inl (StatusCodeError 500))) (startWorld boardTask)
     = (Inr JUndefined,
        \<lparr>theTask = boardTask, remote = 1,
         calls = [UpdateCardMain (JStr ''card-1'')
                    \<lparr>r_id = Some (JStr ''card-1''), r_desc = Some (JStr ''See the tracker''),
                     r_name = Some (JStr ''Fix the parser''), r_idList = None,
                     r_dateLastActivity = None, r_customFieldItems = None\<rparr>],
         printed = []\<rparr>)"
  by (simp add: writeOrCreate_def getField_def boardTask_fields boardTask_main startWorld_def
        stubRequester_def)

text \<open>
  \<open>createCard\<close> on a task whose CATEGORIES is an array and whose three main fields
  exist: it makes the one creation request, whatever the answer; the answer decides the
  result and whether TRELLO_ID is written.
\<close>

lemma createCard_request:
  assumes cats: "taskFields (theTask w) CATEGORIES = Some (JArr cs)"
    and key: "(if cs = [] then Inr ''1'' else js_toString (last cs)) = Inr key"
    and flds: "taskFields (theTask w) TRELLO_ID = Some i"
      "taskFields (theTask w) DESCRIPTION = Some d" "taskFields (theTask w) NAME = Some n"
    and answer: "requestCreateCard requester (remote w)
        \<lparr>r_id = None, r_desc = Some d, r_name = Some n, r_idList = Some (categoryList cfg key),
         r_dateLastActivity = None, r_customFieldItems = None\<rparr> = (answer, r')"
  shows "calls (snd (createCard cfg requester w)) =
           calls w @ [CreateCard \<lparr>r_id = None, r_desc = Some d, r_name = Some n,
                        r_idList = Some (categoryList cfg key),
                        r_dateLastActivity = None, r_customFieldItems = None\<rparr>] \<and>
         remote (snd (createCard cfg requester w)) = r' \<and>
         printed (snd (createCard cfg requester w)) = printed w \<and>
         (\<forall>response newId. answer = Inr response \<and> js_prop response ''id'' = Inr newId \<longrightarrow>
            fst (createCard cfg requester w) = Inr response \<and>
            taskFields (theTask (snd (createCard cfg requester w))) TRELLO_ID = Some newId \<and>
            TRELLO_ID \<in> updatedFields (theTask (snd (createCard cfg requester w)))) \<and>
         (\<forall>reason. answer = Inl reason \<longrightarrow>
            fst (createCard cfg requester w) = Inl reason \<and>
            taskFields (theTask (snd (createCard cfg requester w))) TRELLO_ID = Some i \<and>
            updatedFields (theTask (snd (createCard cfg requester w))) = updatedFields (theTask w))"
  using assms
  by (cases answer)
     (auto simp: createCard_def Let_def setField_def getField_def popCategory_def mainToRaw_def
        split: if_splits sum.splits)

text \<open>The two ways into \<open>createCard\<close>: after a 404, and with no id to update.\<close>

lemma writeOrCreate_not_found:
  assumes "getField (theTask w) TRELLO_ID = Inr cardId" and "truthy cardId"
    and "mainToRaw (theTask w) = Inr rawMain"
    and "getField (theTask w) NAME = Inr n"
    and "updateCardMain requester (remote w) cardId rawMain = (Inl (StatusCodeError 404), r')"
  shows "writeOrCreate cfg requester w =
           createCard cfg requester
             (w\<lparr>remote := r', calls := calls w @ [UpdateCardMain cardId rawMain],
                printed := printed w @ [UpdateFailedCreating n]\<rparr>)"
  using assms by (simp add: writeOrCreate_def)

lemma writeOrCreate_unset:
  assumes "getField (theTask w) TRELLO_ID = Inr cardId" and "\<not> truthy cardId"
  shows "writeOrCreate cfg requester w = createCard cfg requester w"
  using assms by (simp add: writeOrCreate_def)

text \<open>
  C4. For a task whose CATEGORIES field is an array (with a last element that has a
  \<open>toString\<close>, if any) and whose three main fields exist, with \<open>cardId\<close> the value of
  TRELLO_ID:
  \<^item> if \<open>cardId\<close> is set (counts as true) and the board rejects the update of the main
    fields with status 404, \<open>writeOrCreate\<close> makes exactly two requests, that update and
    then one creation (without id, in the list \<open>createCard\<close> picks), and prints the line
    about the failed update;
  \<^item> if \<open>cardId\<close> is not set, \<open>writeOrCreate\<close> makes exactly one request, the creation,
    and no update;
  \<^item> in both cases, when the creation is answered with a response, that response is the
    result and TRELLO_ID holds the response's \<open>id\<close> and is marked updated; when it is
    rejected, the rejection is the result and TRELLO_ID is as before.
\<close>

theorem writeOrCreate_falls_back_to_create:
  assumes cats: "taskFields (theTask w) CATEGORIES = Some (JArr cs)"
    and key: "(if cs = [] then Inr ''1'' else js_toString (last cs)) = Inr key"
    and flds: "taskFields (theTask w) TRELLO_ID = Some cardId"
      "taskFields (theTask w) DESCRIPTION = Some d" "taskFields (theTask w) NAME = Some n"
  shows
   "(truthy cardId \<and>
     updateCardMain requester (remote w) cardId
        \<lparr>r_id = Some cardId, r_desc = Some d, r_name = Some n, r_idList = None,
         r_dateLastActivity = None, r_customFieldItems = None\<rparr>
       = (Inl (StatusCodeError 404), ra) \<and>
     requestCreateCard requester ra
        \<lparr>r_id = None, r_desc = Some d, r_name = Some n, r_idList = Some (categoryList cfg key),
         r_dateLastActivity = None, r_customFieldItems = None\<rparr> = (answer, rb) \<longrightarrow>
       calls (snd (writeOrCreate cfg requester w)) =
         calls w @
           [UpdateCardMain cardId
              \<lparr>r_id = Some cardId, r_desc = Some d, r_name = Some n, r_idList = None,
               r_dateLastActivity = None, r_customFieldItems = None\<rparr>,
            CreateCard
              \<lparr>r_id = None, r_desc = Some d, r_name = Some n,
               r_idList = Some (categoryList cfg key),
               r_dateLastActivity = None, r_customFieldItems = None\<rparr>] \<and>
       remote (snd (writeOrCreate cfg requester w)) = rb \<and>
       printed (snd (writeOrCreate cfg requester w)) = printed w @ [UpdateFailedCreating n] \<and>
       (\<forall>response newId. answer = Inr response \<and> js_prop response ''id'' = Inr newId \<longrightarrow>
          fst (writeOrCreate cfg requester w) = Inr response \<and>
          taskFields (theTask (snd (writeOrCreate cfg requester w))) TRELLO_ID = Some newId \<and>
          TRELLO_ID \<in> updatedFields (theTask (snd (writeOrCreate cfg requester w)))) \<and>
       (\<forall>reason. answer = Inl reason \<longrightarrow>
          fst (writeOrCreate cfg requester w) = Inl reason \<and>
          taskFields (theTask (snd (writeOrCreate cfg requester w))) TRELLO_ID = Some cardId)) \<and>
    (\<not> truthy cardId \<and>
     requestCreateCard requester (remote w)
        \<lparr>r_id = None, r_desc = Some d, r_name = Some n, r_idList = Some (categoryList cfg key),
         r_dateLastActivity = None, r_customFieldItems = None\<rparr> = (answer, rb) \<longrightarrow>
       calls (snd (writeOrCreate cfg requester w)) =
         calls w @
           [CreateCard
              \<lparr>r_id = None, r_desc = Some d, r_name = Some n,
               r_idList = Some (categoryList cfg key),
               r_dateLastActivity = None, r_customFieldItems = None\<rparr>] \<and>
       remote (snd (writeOrCreate cfg requester w)) = rb \<and>
       printed (snd (writeOrCreate cfg requester w)) = printed w \<and>
       (\<forall>response newId. answer = Inr response \<and> js_prop response ''id'' = Inr newId \<longrightarrow>
          fst (writeOrCreate cfg requester w) = Inr response \<and>
          taskFields (theTask (snd (writeOrCreate cfg requester w))) TRELLO_ID = Some newId \<and>
          TRELLO_ID \<in> updatedFields (theTask (snd (writeOrCreate cfg requester w)))) \<and>
       (\<forall>reason. answer = Inl reason \<longrightarrow>
          fst (writeOrCreate cfg requester w) = Inl reason \<and>
          taskFields (theTask (snd (writeOrCreate cfg requester w))) TRELLO_ID = Some cardId))"
proof -
  let ?update = "\<lparr>r_id = Some cardId, r_desc = Some d, r_name = Some n, r_idList = None,
         r_dateLastActivity = None, r_customFieldItems = None\<rparr>"
  let ?create = "\<lparr>r_id = None, r_desc = Some d, r_name = Some n,
         r_idList = Some (categoryList cfg key),
         r_dateLastActivity = None, r_customFieldItems = None\<rparr>"
  have main: "mainToRaw (theTask w) = Inr ?update"
    using flds by (simp add: mainToRaw_def getField_def)
  have tid: "getField (theTask w) TRELLO_ID = Inr cardId"
    and nm: "getField (theTask w) NAME = Inr n"
    using flds by (simp_all add: getField_def)
  show ?thesis
  proof (rule conjI; rule impI)
    assume a: "truthy cardId \<and>
       updateCardMain requester (remote w) cardId ?update = (Inl (StatusCodeError 404), ra) \<and>
       requestCreateCard requester ra ?create = (answer, rb)"
    let ?w1 = "w\<lparr>remote := ra, calls := calls w @ [UpdateCardMain cardId ?update],
                 printed := printed w @ [UpdateFailedCreating n]\<rparr>"
    let ?w2 = "snd (createCard cfg requester ?w1)"
    have run: "writeOrCreate cfg requester w = createCard cfg requester ?w1"
      using a tid main nm by (simp add: writeOrCreate_def)
    have cats1: "taskFields (theTask ?w1) CATEGORIES = Some (JArr cs)"
      and flds1: "taskFields (theTask ?w1) TRELLO_ID = Some cardId"
        "taskFields (theTask ?w1) DESCRIPTION = Some d" "taskFields (theTask ?w1) NAME = Some n"
      and ans1: "requestCreateCard requester (remote ?w1) ?create = (answer, rb)"
      using cats flds a by simp_all
    note made = createCard_request [OF cats1 key flds1 ans1]
    from made have c1: "calls ?w2 = calls w @ [UpdateCardMain cardId ?update, CreateCard ?create]"
      by simp
    from made have c2: "remote ?w2 = rb" by blast
    from made have c3: "printed ?w2 = printed w @ [UpdateFailedCreating n]" by simp
    from made have c4: "\<forall>response newId. answer = Inr response \<and> js_prop response ''id'' = Inr newId \<longrightarrow>
          fst (createCard cfg requester ?w1) = Inr response \<and>
          taskFields (theTask ?w2) TRELLO_ID = Some newId \<and>
          TRELLO_ID \<in> updatedFields (theTask ?w2)"
      by blast
    from made have c5: "\<forall>reason. answer = Inl reason \<longrightarrow>
          fst (createCard cfg requester ?w1) = Inl reason \<and>
          taskFields (theTask ?w2) TRELLO_ID = Some cardId"
      by blast
    from c1 c2 c3 c4 c5
    show "calls (snd (writeOrCreate cfg requester w)) =
         calls w @ [UpdateCardMain cardId ?update, CreateCard ?create] \<and>
       remote (snd (writeOrCreate cfg requester w)) = rb \<and>
       printed (snd (writeOrCreate cfg requester w)) = printed w @ [UpdateFailedCreating n] \<and>
       (\<forall>response newId. answer = Inr response \<and> js_prop response ''id'' = Inr newId \<longrightarrow>
          fst (writeOrCreate cfg requester w) = Inr response \<and>
          taskFields (theTask (snd (writeOrCreate cfg requester w))) TRELLO_ID = Some newId \<and>
          TRELLO_ID \<in> updatedFields (theTask (snd (writeOrCreate cfg requester w)))) \<and>
       (\<forall>reason. answer = Inl reason \<longrightarrow>
          fst (writeOrCreate cfg requester w) = Inl reason \<and>
          taskFields (theTask (snd (writeOrCreate cfg requester w))) TRELLO_ID = Some cardId)"
      unfolding run by (intro conjI)
  next
    assume a: "\<not> truthy cardId \<and> requestCreateCard requester (remote w) ?create = (answer, rb)"
    let ?w2 = "snd (createCard cfg requester w)"
    have run: "writeOrCreate cfg requester w = createCard cfg requester w"
      using a tid by (simp add: writeOrCreate_def)
    from a have ans: "requestCreateCard requester (remote w) ?create = (answer, rb)" by simp
    note made = createCard_request [OF cats key flds ans]
    from made have c1: "calls ?w2 = calls w @ [CreateCard ?create]" by blast
    from made have c2: "remote ?w2 = rb" by blast
    from made have c3: "printed ?w2 = printed w" by blast
    from made have c4: "\<forall>response newId. answer = Inr response \<and> js_prop response ''id'' = Inr newId \<longrightarrow>
          fst (createCard cfg requester w) = Inr response \<and>
          taskFields (theTask ?w2) TRELLO_ID = Some newId \<and>
          TRELLO_ID \<in> updatedFields (theTask ?w2)"
      by blast
    from made have c5: "\<forall>reason. answer = Inl reason \<longrightarrow>
          fst (createCard cfg requester w) = Inl reason \<and>
          taskFields (theTask ?w2) TRELLO_ID = Some cardId"
      by blast
    from c1 c2 c3 c4 c5
    show "calls (snd (writeOrCreate cfg requester w)) = calls w @ [CreateCard ?create] \<and>
       remote (snd (writeOrCreate cfg requester w)) = rb \<and>
       printed (snd (writeOrCreate cfg requester w)) = printed w \<and>
       (\<forall>response newId. answer = Inr response \<and> js_prop response ''id'' = Inr newId \<longrightarrow>
          fst (writeOrCreate cfg requester w) = Inr response \<and>
          taskFields (theTask (snd (writeOrCreate cfg requester w))) TRELLO_ID = Some newId \<and>
          TRELLO_ID \<in> updatedFields (theTask (snd (writeOrCreate cfg requester w)))) \<and>
       (\<forall>reason. answer = Inl reason \<longrightarrow>
          fst (writeOrCreate cfg requester w) = Inl reason \<and>
          taskFields (theTask (snd (writeOrCreate cfg requester w))) TRELLO_ID = Some cardId)"
      unfolding run by (intro conjI)
  qed
qed

theorem writeOrCreate_falls_back_to_create_witness:
  "taskFields (theTask (startWorld boardTask)) TRELLO_ID = Some (JStr ''card-1'') \<and>
   truthy (JStr ''card-1'') \<and>
   updateCardMain (stubRequester (Inl (StatusCodeError 404))) 0 (JStr ''card-1'')
       \<lparr>r_id = Some (JStr ''card-1''), r_desc = Some (JStr ''See the tracker''),
        r_name = Some (JStr ''Fix the parser''), r_idList = None,
        r_dateLastActivity = None, r_customFieldItems = None\<rparr>
     = (Inl (StatusCodeError 404), 1) \<and>
   fst (writeOrCreate exampleConfig (stubRequester (Inl (StatusCodeError 404)))
         (startWorld boardTask)) = Inr (JObj [(''id'', JStr ''card-2'')]) \<and>
   calls (snd (writeOrCreate exampleConfig (stubRequester (Inl (StatusCodeError 404)))
         (startWorld boardTask))) =
     [UpdateCardMain (JStr ''card-1'')
        \<lparr>r_id = Some (JStr ''card-1''), r_desc = Some (JStr ''See the tracker''),
         r_name = Some (JStr ''Fix the parser''), r_idList = None,
         r_dateLastActivity = None, r_customFieldItems = None\<rparr>,
      CreateCard
        \<lparr>r_id = None, r_desc = Some (JStr ''See the tracker''),
         r_name = Some (JStr ''Fix the parser''), r_idList = Some (JStr ''list-qa''),
         r_dateLastActivity = None, r_customFieldItems = None\<rparr>] \<and>
   taskFields (theTask (snd (writeOrCreate exampleConfig (stubRequester (Inl (StatusCodeError 404)))
         (startWorld boardTask)))) TRELLO_ID = Some (JStr ''card-2'') \<and>
   taskFields (theTask (startWorld blankTask)) TRELLO_ID = Some JNull \<and>
   \<not> truthy JNull \<and>
   fst (writeOrCreate exampleConfig (stubRequester (Inl (StatusCodeError 404)))
         (startWorld blankTask)) = Inr (JObj [(''id'', JStr ''card-2'')]) \<and>
   calls (snd (writeOrCreate exampleConfig (stubRequester (Inl (StatusCodeError 404)))
         (startWorld blankTask))) =
     [CreateCard
        \<lparr>r_id = None, r_desc = Some JNull, r_name = Some JNull,
         r_idList = Some (JStr ''list-coding''),
         r_dateLastActivity = None, r_customFieldItems = None\<rparr>] \<and>
   taskFields (theTask (snd (writeOrCreate exampleConfig (stubRequester (Inl (StatusCodeError 404)))
         (startWorld blankTask)))) TRELLO_ID = Some (JStr ''card-2'')"
proof -
  let ?req = "stubRequester (Inl (StatusCodeError 404))"
  let ?response = "JObj [(''id'', JStr ''card-2'')]"
  let ?update = "\<lparr>r_id = Some (JStr ''card-1''), r_desc = Some (JStr ''See the tracker''),
        r_name = Some (JStr ''Fix the parser''), r_idList = None,
        r_dateLastActivity = None, r_customFieldItems = None\<rparr>"
  have newId: "js_prop ?response ''id'' = Inr (JStr ''card-2'')"
    by (simp add: readProp_def)
  \<comment> \<open>the task that is on the board\<close>
  have cats: "taskFields (theTask (startWorld boardTask)) CATEGORIES = Some (JArr [JNum 1, JNum 4])"
    by (simp add: startWorld_simps boardTask_fields)
  have key: "(if [JNum 1, JNum 4] = [] then Inr ''1'' else js_toString (last [JNum 1, JNum 4]))
      = Inr ''4''"
    by (simp add: js_toString_def dec_examples)
  have flds: "taskFields (theTask (startWorld boardTask)) TRELLO_ID = Some (JStr ''card-1'')"
    "taskFields (theTask (startWorld boardTask)) DESCRIPTION = Some (JStr ''See the tracker'')"
    "taskFields (theTask (startWorld boardTask)) NAME = Some (JStr ''Fix the parser'')"
    by (simp_all add: startWorld_simps boardTask_fields)
  have set_id: "truthy (JStr ''card-1'')" by simp
  have rejected: "updateCardMain ?req 0 (JStr ''card-1'') ?update = (Inl (StatusCodeError 404), 1)"
    by (simp add: stubRequester_def)
  have pre: "truthy (JStr ''card-1'') \<and>
     updateCardMain ?req (remote (startWorld boardTask)) (JStr ''card-1'') ?update
       = (Inl (StatusCodeError 404), 1) \<and>
     requestCreateCard ?req 1
        \<lparr>r_id = None, r_desc = Some (JStr ''See the tracker''),
         r_name = Some (JStr ''Fix the parser''),
         r_idList = Some (categoryList exampleConfig ''4''),
         r_dateLastActivity = None, r_customFieldItems = None\<rparr> = (Inr ?response, 2)"
    by (simp add: stubRequester_def startWorld_simps)
  note fallback = writeOrCreate_falls_back_to_create [OF cats key flds,
      where requester = ?req and ra = 1 and answer = "Inr ?response" and rb = 2
        and cfg = exampleConfig]
  from fallback pre newId
  have f1: "fst (writeOrCreate exampleConfig ?req (startWorld boardTask)) = Inr ?response"
    and f3: "taskFields (theTask (snd (writeOrCreate exampleConfig ?req (startWorld boardTask))))
        TRELLO_ID = Some (JStr ''card-2'')"
    by blast+
  from fallback pre
  have "calls (snd (writeOrCreate exampleConfig ?req (startWorld boardTask))) =
     calls (startWorld boardTask) @
     [UpdateCardMain (JStr ''card-1'') ?update,
      CreateCard
        \<lparr>r_id = None, r_desc = Some (JStr ''See the tracker''),
         r_name = Some (JStr ''Fix the parser''),
         r_idList = Some (categoryList exampleConfig ''4''),
         r_dateLastActivity = None, r_customFieldItems = None\<rparr>]"
    by blast
  then have f2: "calls (snd (writeOrCreate exampleConfig ?req (startWorld boardTask))) =
     [UpdateCardMain (JStr ''card-1'') ?update,
      CreateCard
        \<lparr>r_id = None, r_desc = Some (JStr ''See the tracker''),
         r_name = Some (JStr ''Fix the parser''), r_idList = Some (JStr ''list-qa''),
         r_dateLastActivity = None, r_customFieldItems = None\<rparr>]"
    by (simp add: startWorld_simps exampleConfig_lists)
  \<comment> \<open>the task that is not on the board\<close>
  have cats0: "taskFields (theTask (startWorld blankTask)) CATEGORIES = Some (JArr [])"
    by (simp add: startWorld_simps blankTask_fields)
  have key0: "(if ([] :: jsval list) = [] then Inr ''1'' else js_toString (last [])) = Inr ''1''"
    by simp
  have flds0: "taskFields (theTask (startWorld blankTask)) TRELLO_ID = Some JNull"
    "taskFields (theTask (startWorld blankTask)) DESCRIPTION = Some JNull"
    "taskFields (theTask (startWorld blankTask)) NAME = Some JNull"
    by (simp_all add: startWorld_simps blankTask_fields)
  have unset_id: "\<not> truthy JNull" by simp
  have pre0: "\<not> truthy JNull \<and>
     requestCreateCard ?req (remote (startWorld blankTask))
        \<lparr>r_id = None, r_desc = Some JNull, r_name = Some JNull,
         r_idList = Some (categoryList exampleConfig ''1''),
         r_dateLastActivity = None, r_customFieldItems = None\<rparr> = (Inr ?response, 1)"
    by (simp add: stubRequester_def startWorld_simps)
  note direct = writeOrCreate_falls_back_to_create [OF cats0 key0 flds0,
      where requester = ?req and ra = 1 and answer = "Inr ?response" and rb = 1
        and cfg = exampleConfig]
  from direct pre0 newId
  have g1: "fst (writeOrCreate exampleConfig ?req (startWorld blankTask)) = Inr ?response"
    and g3: "taskFields (theTask (snd (writeOrCreate exampleConfig ?req (startWorld blankTask))))
        TRELLO_ID = Some (JStr ''card-2'')"
    by blast+
  from direct pre0
  have "calls (snd (writeOrCreate exampleConfig ?req (startWorld blankTask))) =
     calls (startWorld blankTask) @
     [CreateCard
        \<lparr>r_id = None, r_desc = Some JNull, r_name = Some JNull,
         r_idList = Some (categoryList exampleConfig ''1''),
         r_dateLastActivity = None, r_customFieldItems = None\<rparr>]"
    by blast
  then have g2: "calls (snd (writeOrCreate exampleConfig ?req (startWorld blankTask))) =
     [CreateCard
        \<lparr>r_id = None, r_desc = Some JNull, r_name = Some JNull,
         r_idList = Some (JStr ''list-coding''),
         r_dateLastActivity = None, r_customFieldItems = None\<rparr>]"
    by (simp add: startWorld_simps exampleConfig_lists)
  from flds(1) set_id rejected f1 f2 f3 flds0(1) unset_id g1 g2 g3
  show ?thesis by (intro conjI)
qed

section \<open>Writing the changed fields\<close>

text \<open>The sibling \<open>customToRaw\<close>, on the same task: each custom field from its own field.\<close>

lemma customToRaw_boardTask:
  "customToRaw exampleConfig boardTask =
     Inr [(''cf-code'', \<lparr>idCustomField = JUndefined, fvalue = JObj [(''checked'', JStr ''true'')]\<rparr>),
          (''cf-qa'', \<lparr>idCustomField = JUndefined, fvalue = JObj [(''checked'', JStr ''true'')]\<rparr>),
          (''cf-outreach'', \<lparr>idCustomField = JUndefined, fvalue = JStr []\<rparr>),
          (''cf-docs'', \<lparr>idCustomField = JUndefined, fvalue = JStr []\<rparr>),
          (''cf-design'', \<lparr>idCustomField = JUndefined, fvalue = JStr []\<rparr>),
          (''cf-tags'', \<lparr>idCustomField = JUndefined, fvalue = JObj [(''text'', JStr [])]\<rparr>),
          (''cf-google'', \<lparr>idCustomField = JUndefined, fvalue = JObj [(''number'', JStr ''77'')]\<rparr>),
          (''cf-days'', \<lparr>idCustomField = JUndefined, fvalue = JObj [(''number'', JStr ''3'')]\<rparr>),
          (''cf-beginner'', \<lparr>idCustomField = JUndefined, fvalue = JObj [(''checked'', JStr ''true'')]\<rparr>),
          (''cf-instances'', \<lparr>idCustomField = JUndefined, fvalue = JObj [(''number'', JStr ''2'')]\<rparr>)]"
  by (simp add: customToRaw_def serialiseCategories_def serialiseTags_def js_includes_def
        getCustomFieldFromTask_def valueToCustomField_def getField_def boardTask_def
        blankTask_fields exampleConfig_def checkbox_def js_join_def dec_examples)

text \<open>
  C5. The task has DAYS \<open>3\<close> and GOOGLE_ID \<open>77\<close>. With DAYS as the one altered field,
  \<open>writeFields\<close> sends the custom field \<open>days\<close> with the encoding of \<open>77\<close>: the case reads
  \<open>fields.GOOGLE_ID\<close>. The encoding of the task's DAYS is \<open>{number: "3"}\<close>, which is what
  \<open>customToRaw\<close> puts under the same custom field. (IS_BEGINNER and MAX_INSTANCES read
  \<open>fields.GOOGLE_ID\<close> in the same way.)
\<close>

theorem writeFields_days_sends_google_id:
  "calls (snd (writeFields exampleConfig (stubRequester (Inr JNull)) [DAYS] (startWorld boardTask)))
     = [UpdateCustomField (JStr ''card-1'') ''cf-days''
          \<lparr>idCustomField = JUndefined, fvalue = JObj [(''number'', JStr ''77'')]\<rparr>] \<and>
   getCustomFieldFromTask DAYS boardTask
     = Inr \<lparr>idCustomField = JUndefined, fvalue = JObj [(''number'', JStr ''3'')]\<rparr>"
  by (simp add: writeFields_def getField_def boardTask_fields startWorld_def stubRequester_def
        getCustomFieldFromTask_def valueToCustomField_def dec_examples exampleConfig_def)

end
